theory Spec2Isabelle
  imports Complex_Main "HOL-Library.Type_Length"
begin

section \<open>JavaScript numbers and values\<close>

text \<open>
  The library computes on JavaScript numbers, which are IEEE 754 binary64 values. A number
  is modelled as a real, one of the two infinities, or NaN. The type carries the precision
  of its arithmetic as a parameter: at precision \<open>binary64\<close> every sum, product and
  quotient of two reals is rounded to the nearest number with a 53-bit significand (ties
  to even), becomes gradually less precise below \<open>2^(-1022)\<close>, and overflows to an infinity
  where the rounded value reaches \<open>2^1024\<close>; at precision \<open>exact\<close> nothing is rounded and
  nothing overflows. A statement that does not fix the precision holds in both. The
  special values propagate as in IEEE 754: NaN absorbs every operation and makes every
  comparison false, and the undefined forms (\<open>\<infinity> - \<infinity>\<close>, \<open>0 * \<infinity>\<close>, \<open>0 / 0\<close>, \<open>\<infinity> / \<infinity>\<close>)
  give NaN. The sign of zero is not modelled (a division of a non-zero real by zero takes
  the sign of the dividend). A \<open>Num r\<close> whose \<open>r\<close> is not a binary64 value stands for no
  JavaScript number; statements about all numbers cover them as well, and the examples
  at precision \<open>binary64\<close> use binary64 values only.
\<close>

datatype 'p jsnum = Num real | PosInf | NegInf | NaN

text \<open>
  The precision \<open>'p\<close> is a numeral type, of which only the number \<open>LENGTH('p)\<close> is used:
  the number of bits of the significand, or 0 for no rounding.
\<close>

type_synonym exact = "0"

type_synonym binary64 = "53"

text \<open>Rounding to the nearest integer, ties to even.\<close>

definition round_even :: "real \<Rightarrow> int" where
  "round_even x =
     (let n = \<lfloor>x\<rfloor>; d = x - of_int n
      in if d < 1 / 2 then n else if 1 / 2 < d then n + 1 else if even n then n else n + 1)"

text \<open>
  Rounding a real to \<open>prec\<close> significant bits: with \<open>e\<close> the binary exponent of \<open>r\<close>, not
  below the least normal exponent, \<open>r\<close> is rounded to a multiple of \<open>2^(e - prec + 1)\<close>.
\<close>

definition round_to :: "nat \<Rightarrow> real \<Rightarrow> real" where
  "round_to prec r =
     (if r = 0 then 0
      else (let e = max \<lfloor>log 2 \<bar>r\<bar>\<rfloor> (- 1022);
                u = 2 powr of_int (e - (int prec - 1))
            in of_int (round_even (r / u)) * u))"

text \<open>The number that an operation with the real result \<open>r\<close> returns.\<close>

definition fl :: "real \<Rightarrow> ('p::len0) jsnum" where
  "fl r =
     (if LENGTH('p) = 0 then Num r
      else (let x = round_to LENGTH('p) r
            in if 2 ^ 1024 \<le> x then PosInf else if x \<le> - (2 ^ 1024) then NegInf else Num x))"

instantiation jsnum :: (len0) "{plus, uminus, minus, times, inverse, abs, ord}"
begin

fun plus_jsnum :: "'a jsnum \<Rightarrow> 'a jsnum \<Rightarrow> 'a jsnum" where
  "plus_jsnum (Num a) (Num b) = fl (a + b)"
| "plus_jsnum NaN _ = NaN"
| "plus_jsnum _ NaN = NaN"
| "plus_jsnum PosInf NegInf = NaN"
| "plus_jsnum NegInf PosInf = NaN"
| "plus_jsnum PosInf _ = PosInf"
| "plus_jsnum _ PosInf = PosInf"
| "plus_jsnum NegInf _ = NegInf"
| "plus_jsnum _ NegInf = NegInf"

fun uminus_jsnum :: "'a jsnum \<Rightarrow> 'a jsnum" where
  "uminus_jsnum (Num a) = Num (- a)"
| "uminus_jsnum PosInf = NegInf"
| "uminus_jsnum NegInf = PosInf"
| "uminus_jsnum NaN = NaN"

definition minus_jsnum :: "'a jsnum \<Rightarrow> 'a jsnum \<Rightarrow> 'a jsnum" where
  "minus_jsnum a b = a + (- b)"

fun times_jsnum :: "'a jsnum \<Rightarrow> 'a jsnum \<Rightarrow> 'a jsnum" where
  "times_jsnum (Num a) (Num b) = fl (a * b)"
| "times_jsnum NaN _ = NaN"
| "times_jsnum _ NaN = NaN"
| "times_jsnum PosInf (Num b) = (if b = 0 then NaN else if 0 < b then PosInf else NegInf)"
| "times_jsnum NegInf (Num b) = (if b = 0 then NaN else if 0 < b then NegInf else PosInf)"
| "times_jsnum (Num a) PosInf = (if a = 0 then NaN else if 0 < a then PosInf else NegInf)"
| "times_jsnum (Num a) NegInf = (if a = 0 then NaN else if 0 < a then NegInf else PosInf)"
| "times_jsnum PosInf PosInf = PosInf"
| "times_jsnum PosInf NegInf = NegInf"
| "times_jsnum NegInf PosInf = NegInf"
| "times_jsnum NegInf NegInf = PosInf"

fun divide_jsnum :: "'a jsnum \<Rightarrow> 'a jsnum \<Rightarrow> 'a jsnum" where
  "divide_jsnum (Num a) (Num b) =
     (if b = 0 then (if a = 0 then NaN else if 0 < a then PosInf else NegInf)
      else fl (a / b))"
| "divide_jsnum NaN _ = NaN"
| "divide_jsnum _ NaN = NaN"
| "divide_jsnum (Num a) PosInf = Num 0"
| "divide_jsnum (Num a) NegInf = Num 0"
| "divide_jsnum PosInf (Num b) = (if 0 \<le> b then PosInf else NegInf)"
| "divide_jsnum NegInf (Num b) = (if 0 \<le> b then NegInf else PosInf)"
| "divide_jsnum PosInf PosInf = NaN"
| "divide_jsnum PosInf NegInf = NaN"
| "divide_jsnum NegInf PosInf = NaN"
| "divide_jsnum NegInf NegInf = NaN"

definition inverse_jsnum :: "'a jsnum \<Rightarrow> 'a jsnum" where
  "inverse_jsnum (a::'a jsnum) = divide (Num 1) a"

fun abs_jsnum :: "'a jsnum \<Rightarrow> 'a jsnum" where
  "abs_jsnum (Num a) = Num \<bar>a\<bar>"
| "abs_jsnum PosInf = PosInf"
| "abs_jsnum NegInf = PosInf"
| "abs_jsnum NaN = NaN"

fun less_jsnum :: "'a jsnum \<Rightarrow> 'a jsnum \<Rightarrow> bool" where
  "less_jsnum (Num a) (Num b) = (a < b)"
| "less_jsnum NaN _ = False"
| "less_jsnum _ NaN = False"
| "less_jsnum NegInf NegInf = False"
| "less_jsnum NegInf _ = True"
| "less_jsnum PosInf _ = False"
| "less_jsnum (Num a) PosInf = True"
| "less_jsnum (Num a) NegInf = False"

fun less_eq_jsnum :: "'a jsnum \<Rightarrow> 'a jsnum \<Rightarrow> bool" where
  "less_eq_jsnum (Num a) (Num b) = (a \<le> b)"
| "less_eq_jsnum NaN _ = False"
| "less_eq_jsnum _ NaN = False"
| "less_eq_jsnum NegInf _ = True"
| "less_eq_jsnum PosInf PosInf = True"
| "less_eq_jsnum PosInf _ = False"
| "less_eq_jsnum (Num a) PosInf = True"
| "less_eq_jsnum (Num a) NegInf = False"

instance ..

end

text \<open>\<open>a === b\<close> and \<open>a !== b\<close> on numbers: NaN is unequal to everything, itself included.\<close>

definition js_eq :: "('p::len0) jsnum \<Rightarrow> 'p jsnum \<Rightarrow> bool" where
  "js_eq a b = (a \<noteq> NaN \<and> b \<noteq> NaN \<and> a = b)"

definition js_neq :: "('p::len0) jsnum \<Rightarrow> 'p jsnum \<Rightarrow> bool" where
  "js_neq a b = (\<not> js_eq a b)"

text \<open>
  \<open>Math.min\<close>, \<open>Math.max\<close>, \<open>Math.sqrt\<close>, \<open>Math.sin\<close>, \<open>Math.cos\<close>. The square root is
  correctly rounded; sine and cosine are taken as correctly rounded as well, which
  JavaScript does not promise, and no statement below depends on it.
\<close>

definition math_min :: "('p::len0) jsnum \<Rightarrow> 'p jsnum \<Rightarrow> 'p jsnum" where
  "math_min a b = (if a = NaN \<or> b = NaN then NaN else if a \<le> b then a else b)"

definition math_max :: "('p::len0) jsnum \<Rightarrow> 'p jsnum \<Rightarrow> 'p jsnum" where
  "math_max a b = (if a = NaN \<or> b = NaN then NaN else if a \<le> b then b else a)"

fun math_sqrt :: "('p::len0) jsnum \<Rightarrow> 'p jsnum" where
  "math_sqrt (Num a) = (if a < 0 then NaN else fl (sqrt a))"
| "math_sqrt PosInf = PosInf"
| "math_sqrt NegInf = NaN"
| "math_sqrt NaN = NaN"

fun math_sin :: "('p::len0) jsnum \<Rightarrow> 'p jsnum" where
  "math_sin (Num a) = fl (sin a)"
| "math_sin _ = NaN"

fun math_cos :: "('p::len0) jsnum \<Rightarrow> 'p jsnum" where
  "math_cos (Num a) = fl (cos a)"
| "math_cos _ = NaN"

text \<open>
  A property read yields a number or \<open>undefined\<close>. \<open>ToNumber\<close> is the conversion the
  arithmetic and relational operators apply to their operands; \<open>Number.isFinite\<close> is
  false on everything that is not a finite number.
\<close>

datatype 'p jsval = JUndefined | JNumber "'p jsnum"

fun ToNumber :: "('p::len0) jsval \<Rightarrow> 'p jsnum" where
  "ToNumber JUndefined = NaN"
| "ToNumber (JNumber n) = n"

fun Number_isFinite :: "('p::len0) jsval \<Rightarrow> bool" where
  "Number_isFinite (JNumber (Num a)) = True"
| "Number_isFinite _ = False"

text \<open>
  An object passed where the declared type is \<open>any\<close> is given by what reading each of
  its properties yields.
\<close>

type_synonym 'p jsobj = "string \<Rightarrow> 'p jsval"


section \<open>Vectors: \<open>common/Vec2.ts\<close> and \<open>common/Vec3.ts\<close>\<close>

text \<open>
  \<open>Vec2Value\<close> is the array type \<open>[number, number]\<close> and \<open>Vec3Value\<close> is
  \<open>[number, number, number]\<close>; \<open>v[0]\<close> is \<open>fst v\<close> and \<open>v[1]\<close> is
  \<open>snd v\<close>. The functions of \<open>Vec2.ts\<close> take an optional \<open>out\<close> array, evaluate
  both result components from their arguments and only then store them with \<open>set\<close>, so
  the array they return is a function of the argument values, also when \<open>out\<close> is one
  of the arguments. A parameter of type \<open>any\<close> is an option, \<open>None\<close> standing for
  \<open>null\<close> and \<open>undefined\<close>.
\<close>

type_synonym 'p Vec2Value = "'p jsnum \<times> 'p jsnum"

type_synonym 'p Vec3Value = "'p jsnum \<times> 'p jsnum \<times> 'p jsnum"

text \<open>Reading a property of an array by its key: the indices, \<open>length\<close>, and nothing else.\<close>

definition Vec2_prop :: "('p::len0) Vec2Value \<Rightarrow> string \<Rightarrow> 'p jsval" where
  "Vec2_prop v k =
     (if k = ''0'' then JNumber (fst v)
      else if k = ''1'' then JNumber (snd v)
      else if k = ''length'' then JNumber (Num 2)
      else JUndefined)"

definition Vec3_prop :: "('p::len0) Vec3Value \<Rightarrow> string \<Rightarrow> 'p jsval" where
  "Vec3_prop v k =
     (if k = ''0'' then JNumber (fst v)
      else if k = ''1'' then JNumber (fst (snd v))
      else if k = ''2'' then JNumber (snd (snd v))
      else if k = ''length'' then JNumber (Num 3)
      else JUndefined)"

text \<open>
  \<open>console.assert(cond, msg)\<close> writes \<open>msg\<close> to the console when \<open>cond\<close> is false and
  does nothing otherwise. The console is the list of the messages written so far.
\<close>

type_synonym console = "string list"

definition console_assert :: "bool \<Rightarrow> string \<Rightarrow> console \<Rightarrow> console" where
  "console_assert cond msg con = (if cond then con else con @ [msg])"

definition Vec2_create :: "('p::len0) jsnum \<Rightarrow> 'p jsnum \<Rightarrow> 'p Vec2Value" where
  "Vec2_create x y = (x, y)"

definition Vec2_zero :: "('p::len0) Vec2Value" where
  "Vec2_zero = (Num 0, Num 0)"

definition Vec2_set :: "('p::len0) jsnum \<Rightarrow> 'p jsnum \<Rightarrow> 'p Vec2Value \<Rightarrow> 'p Vec2Value" where
  "Vec2_set x y out = (x, y)"

definition Vec2_isValid :: "('p::len0) Vec2Value option \<Rightarrow> bool" where
  "Vec2_isValid obj =
     (case obj of
        None \<Rightarrow> False
      | Some v \<Rightarrow> Number_isFinite (Vec2_prop v ''0'') \<and> Number_isFinite (Vec2_prop v ''1''))"

text \<open>\<open>_ASSERT && console.assert(!isValid(o), 'Invalid Vec2!', o)\<close>; \<open>ASSERT\<close> is the build flag.\<close>

definition Vec2_assert :: "bool \<Rightarrow> ('p::len0) Vec2Value option \<Rightarrow> console \<Rightarrow> console" where
  "Vec2_assert ASSERT obj con =
     (if ASSERT then console_assert (\<not> Vec2_isValid obj) ''Invalid Vec2!'' con else con)"

definition Vec2_setZero :: "('p::len0) Vec2Value \<Rightarrow> 'p Vec2Value" where
  "Vec2_setZero out = (Num 0, Num 0)"

definition Vec2_scale :: "('p::len0) Vec2Value \<Rightarrow> 'p jsnum \<Rightarrow> 'p Vec2Value" where
  "Vec2_scale v a = (let x = a * fst v; y = a * snd v in Vec2_set x y v)"

definition Vec2_addCombine ::
  "('p::len0) Vec2Value \<Rightarrow> 'p jsnum \<Rightarrow> 'p Vec2Value \<Rightarrow> 'p jsnum \<Rightarrow> 'p Vec2Value \<Rightarrow> 'p Vec2Value" where
  "Vec2_addCombine src a v b w =
     (let x = a * fst v + b * fst w; y = a * snd v + b * snd w
      in Vec2_set (fst src + x) (snd src + y) src)"

definition Vec2_addMul :: "('p::len0) Vec2Value \<Rightarrow> 'p jsnum \<Rightarrow> 'p Vec2Value \<Rightarrow> 'p Vec2Value" where
  "Vec2_addMul src a v =
     (let x = a * fst v; y = a * snd v in Vec2_set (fst src + x) (snd src + y) src)"

definition Vec2_subCombine ::
  "('p::len0) Vec2Value \<Rightarrow> 'p jsnum \<Rightarrow> 'p Vec2Value \<Rightarrow> 'p jsnum \<Rightarrow> 'p Vec2Value \<Rightarrow> 'p Vec2Value" where
  "Vec2_subCombine src a v b w =
     (let x = a * fst v + b * fst w; y = a * snd v + b * snd w
      in Vec2_set (fst src - x) (snd src - y) src)"

definition Vec2_subMul :: "('p::len0) Vec2Value \<Rightarrow> 'p jsnum \<Rightarrow> 'p Vec2Value \<Rightarrow> 'p Vec2Value" where
  "Vec2_subMul src a v =
     (let x = a * fst v; y = a * snd v in Vec2_set (fst src - x) (snd src - y) src)"

definition Vec2_length :: "('p::len0) Vec2Value \<Rightarrow> 'p jsnum" where
  "Vec2_length v = math_sqrt (fst v * fst v + snd v * snd v)"

definition Vec2_lengthSquared :: "('p::len0) Vec2Value \<Rightarrow> 'p jsnum" where
  "Vec2_lengthSquared v = fst v * fst v + snd v * snd v"

definition Vec2_crossVec2Vec2 :: "('p::len0) Vec2Value \<Rightarrow> 'p Vec2Value \<Rightarrow> 'p jsnum" where
  "Vec2_crossVec2Vec2 v w = fst v * snd w - snd v * fst w"

definition Vec2_add :: "('p::len0) Vec2Value \<Rightarrow> 'p Vec2Value \<Rightarrow> 'p Vec2Value" where
  "Vec2_add v w = Vec2_set (fst v + fst w) (snd v + snd w) Vec2_zero"

definition Vec2_sub :: "('p::len0) Vec2Value \<Rightarrow> 'p Vec2Value \<Rightarrow> 'p Vec2Value" where
  "Vec2_sub v w = Vec2_set (fst v - fst w) (snd v - snd w) Vec2_zero"

definition Vec2_mulNumVec2 :: "('p::len0) jsnum \<Rightarrow> 'p Vec2Value \<Rightarrow> 'p Vec2Value" where
  "Vec2_mulNumVec2 a b = Vec2_set (a * fst b) (a * snd b) Vec2_zero"

definition Vec2_abs :: "('p::len0) Vec2Value \<Rightarrow> 'p Vec2Value" where
  "Vec2_abs v = Vec2_set \<bar>fst v\<bar> \<bar>snd v\<bar> Vec2_zero"

text \<open>
  The functions of \<open>Vec2.ts\<close> begin with \<open>_ASSERT && assert(v)\<close> on their vector
  arguments, and \<open>set\<close>, through which they store their result, with
  \<open>_ASSERT && assert(out)\<close> on the array it is about to fill. What a function returns
  does not depend on the flag; what it writes to the console does. For the functions that
  \<open>AABB.isValid\<close> calls, \<open>f_console\<close> is the console after the call of \<open>f\<close>. The
  array that \<open>sub\<close> fills is its default \<open>out = create()\<close>, which is \<open>[0, 0]\<close>.
\<close>

definition Vec2_set_console ::
  "bool \<Rightarrow> ('p::len0) jsnum \<Rightarrow> 'p jsnum \<Rightarrow> 'p Vec2Value \<Rightarrow> console \<Rightarrow> console" where
  "Vec2_set_console ASSERT x y out con =
     (if ASSERT then Vec2_assert ASSERT (Some out) con else con)"

definition Vec2_sub_console ::
  "bool \<Rightarrow> ('p::len0) Vec2Value \<Rightarrow> 'p Vec2Value \<Rightarrow> console \<Rightarrow> console" where
  "Vec2_sub_console ASSERT v w con =
     (let con = (if ASSERT then Vec2_assert ASSERT (Some v) con else con);
          con = (if ASSERT then Vec2_assert ASSERT (Some w) con else con)
      in Vec2_set_console ASSERT (fst v - fst w) (snd v - snd w)
           (Vec2_create (Num 0) (Num 0)) con)"

definition Vec2_lengthSquared_console ::
  "bool \<Rightarrow> ('p::len0) Vec2Value \<Rightarrow> console \<Rightarrow> console" where
  "Vec2_lengthSquared_console ASSERT v con =
     (if ASSERT then Vec2_assert ASSERT (Some v) con else con)"

definition Vec3_create :: "('p::len0) jsnum \<Rightarrow> 'p jsnum \<Rightarrow> 'p jsnum \<Rightarrow> 'p Vec3Value" where
  "Vec3_create x y z = (x, y, z)"

definition Vec3_zero :: "('p::len0) Vec3Value" where
  "Vec3_zero = Vec3_create (Num 0) (Num 0) (Num 0)"

text \<open>
  \<open>Vec3.isValid(obj: any)\<close> reads the properties \<open>x\<close>, \<open>y\<close> and \<open>z\<close> of its argument,
  which an array does not have and another object may have: the argument is an object,
  and the array \<open>v\<close> is passed as the object \<open>Vec3_prop v\<close>.
\<close>

definition Vec3_isValid :: "('p::len0) jsobj option \<Rightarrow> bool" where
  "Vec3_isValid obj =
     (case obj of
        None \<Rightarrow> False
      | Some ob \<Rightarrow>
          Number_isFinite (ob ''x'') \<and> Number_isFinite (ob ''y'') \<and> Number_isFinite (ob ''z''))"

definition Vec3_setZero :: "('p::len0) Vec3Value \<Rightarrow> 'p Vec3Value" where
  "Vec3_setZero obj = (Num 0, Num 0, Num 0)"

definition Vec3_set :: "('p::len0) jsnum \<Rightarrow> 'p jsnum \<Rightarrow> 'p jsnum \<Rightarrow> 'p Vec3Value \<Rightarrow> 'p Vec3Value" where
  "Vec3_set x y z obj = (x, y, z)"

definition Vec3_dot :: "('p::len0) Vec3Value \<Rightarrow> 'p Vec3Value \<Rightarrow> 'p jsnum" where
  "Vec3_dot v w = fst v * fst w + fst (snd v) * fst (snd w) + snd (snd v) * snd (snd w)"

definition Vec3_cross :: "('p::len0) Vec3Value \<Rightarrow> 'p Vec3Value \<Rightarrow> 'p Vec3Value" where
  "Vec3_cross v w =
     Vec3_set (fst (snd v) * snd (snd w) - snd (snd v) * fst (snd w))
              (snd (snd v) * fst w - fst v * snd (snd w))
              (fst v * fst (snd w) - fst (snd v) * fst w) Vec3_zero"



section \<open>Matrices: \<open>common/Mat22.ts\<close> and \<open>common/Mat33.ts\<close>\<close>

text \<open>Both classes store their columns: \<open>ex\<close>, \<open>ey\<close> (and \<open>ez\<close>).\<close>

record 'p Mat22 =
  ex :: "'p Vec2Value"
  ey :: "'p Vec2Value"

definition Mat22_new :: "('p::len0) Mat22" where
  "Mat22_new = \<lparr>Mat22.ex = Vec2_zero, Mat22.ey = Vec2_zero\<rparr>"

definition Mat22_isValid :: "('p::len0) Mat22 option \<Rightarrow> bool" where
  "Mat22_isValid obj =
     (case obj of
        None \<Rightarrow> False
      | Some m \<Rightarrow> Vec2_isValid (Some (Mat22.ex m)) \<and> Vec2_isValid (Some (Mat22.ey m)))"

definition Mat22_assert :: "bool \<Rightarrow> ('p::len0) Mat22 option \<Rightarrow> console \<Rightarrow> console" where
  "Mat22_assert ASSERT obj con =
     (if ASSERT then console_assert (\<not> Mat22_isValid obj) ''Invalid Mat22!'' con else con)"

definition Mat22_getInverse :: "('p::len0) Mat22 \<Rightarrow> 'p Mat22" where
  "Mat22_getInverse this =
     (let a = fst (Mat22.ex this);
          b = fst (Mat22.ey this);
          c = snd (Mat22.ex this);
          d = snd (Mat22.ey this);
          det = a * d - b * c;
          det = (if js_neq det (Num 0) then Num 1 / det else det);
          imx = Mat22_new;
          imx = imx\<lparr>Mat22.ex := (det * d, snd (Mat22.ex imx))\<rparr>;
          imx = imx\<lparr>Mat22.ey := ((- det) * b, snd (Mat22.ey imx))\<rparr>;
          imx = imx\<lparr>Mat22.ex := (fst (Mat22.ex imx), (- det) * c)\<rparr>;
          imx = imx\<lparr>Mat22.ey := (fst (Mat22.ey imx), det * a)\<rparr>
      in imx)"

definition Mat22_solve :: "('p::len0) Mat22 \<Rightarrow> 'p Vec2Value \<Rightarrow> 'p Vec2Value" where
  "Mat22_solve this v =
     (let a = fst (Mat22.ex this);
          b = fst (Mat22.ey this);
          c = snd (Mat22.ex this);
          d = snd (Mat22.ey this);
          det = a * d - b * c;
          det = (if js_neq det (Num 0) then Num 1 / det else det);
          w = (Vec2_zero :: 'p Vec2Value);
          w = (det * (d * fst v - b * snd v), snd w);
          w = (fst w, det * (a * snd v - c * fst v))
      in w)"

record 'p Mat33 =
  ex :: "'p Vec3Value"
  ey :: "'p Vec3Value"
  ez :: "'p Vec3Value"

definition Mat33_new :: "('p::len0) Mat33" where
  "Mat33_new = \<lparr>Mat33.ex = Vec3_zero, Mat33.ey = Vec3_zero, Mat33.ez = Vec3_zero\<rparr>"

text \<open>
  \<open>Mat33.isValid(obj: any)\<close> passes \<open>obj.ex\<close>, \<open>obj.ey\<close> and \<open>obj.ez\<close> to
  \<open>Vec3.isValid\<close>. Its argument is an object with these three properties, each an
  object, \<open>null\<close> or \<open>undefined\<close>; \<open>Mat33_object m\<close> is a \<open>Mat33\<close> passed to it.
\<close>

record 'p Mat33Object =
  ex :: "'p jsobj option"
  ey :: "'p jsobj option"
  ez :: "'p jsobj option"

definition Mat33_object :: "('p::len0) Mat33 \<Rightarrow> 'p Mat33Object" where
  "Mat33_object m =
     \<lparr>Mat33Object.ex = Some (Vec3_prop (Mat33.ex m)),
      Mat33Object.ey = Some (Vec3_prop (Mat33.ey m)),
      Mat33Object.ez = Some (Vec3_prop (Mat33.ez m))\<rparr>"

definition Mat33_isValid :: "('p::len0) Mat33Object option \<Rightarrow> bool" where
  "Mat33_isValid obj =
     (case obj of
        None \<Rightarrow> False
      | Some m \<Rightarrow>
          Vec3_isValid (Mat33Object.ex m) \<and> Vec3_isValid (Mat33Object.ey m)
          \<and> Vec3_isValid (Mat33Object.ez m))"

definition Mat33_assert :: "bool \<Rightarrow> ('p::len0) Mat33Object option \<Rightarrow> console \<Rightarrow> console" where
  "Mat33_assert ASSERT obj con =
     (if ASSERT then console_assert (\<not> Mat33_isValid obj) ''Invalid Mat33!'' con else con)"

definition Mat33_solve33 :: "('p::len0) Mat33 \<Rightarrow> 'p Vec3Value \<Rightarrow> 'p Vec3Value" where
  "Mat33_solve33 this v =
     (case (Mat33.ex this, Mat33.ey this, Mat33.ez this, v) of
        ((ex0, ex1, ex2), (ey0, ey1, ey2), (ez0, ez1, ez2), (v0, v1, v2)) \<Rightarrow>
       let cross_x = ey1 * ez2 - ey2 * ez1;
           cross_y = ey2 * ez0 - ey0 * ez2;
           cross_z = ey0 * ez1 - ey1 * ez0;
           det = ex0 * cross_x + ex1 * cross_y + ex2 * cross_z;
           det = (if js_neq det (Num 0) then Num 1 / det else det);
           cross_x = ey1 * ez2 - ey2 * ez1;
           cross_y = ey2 * ez0 - ey0 * ez2;
           cross_z = ey0 * ez1 - ey1 * ez0;
           r0 = det * (v0 * cross_x + v1 * cross_y + v2 * cross_z);
           cross_x = v1 * ez2 - v2 * ez1;
           cross_y = v2 * ez0 - v0 * ez2;
           cross_z = v0 * ez1 - v1 * ez0;
           r1 = det * (ex0 * cross_x + ex1 * cross_y + ex2 * cross_z);
           cross_x = ey1 * v2 - ey2 * v1;
           cross_y = ey2 * v0 - ey0 * v2;
           cross_z = ey0 * v1 - ey1 * v0;
           r2 = det * (ex0 * cross_x + ex1 * cross_y + ex2 * cross_z)
       in (r0, r1, r2))"

definition Mat33_solve22 :: "('p::len0) Mat33 \<Rightarrow> 'p Vec2Value \<Rightarrow> 'p Vec2Value" where
  "Mat33_solve22 this v =
     (let a11 = fst (Mat33.ex this);
          a12 = fst (Mat33.ey this);
          a21 = fst (snd (Mat33.ex this));
          a22 = fst (snd (Mat33.ey this));
          det = a11 * a22 - a12 * a21;
          det = (if js_neq det (Num 0) then Num 1 / det else det);
          r = (Vec2_zero :: 'p Vec2Value);
          r = (det * (a22 * fst v - a12 * snd v), snd r);
          r = (fst r, det * (a11 * snd v - a21 * fst v))
      in r)"

text \<open>\<open>getInverse22(M)\<close> and \<open>getSymInverse33(M)\<close> assign all nine entries of \<open>M\<close>.\<close>

definition Mat33_getInverse22 :: "('p::len0) Mat33 \<Rightarrow> 'p Mat33 \<Rightarrow> 'p Mat33" where
  "Mat33_getInverse22 this M =
     (let a = fst (Mat33.ex this);
          b = fst (Mat33.ey this);
          c = fst (snd (Mat33.ex this));
          d = fst (snd (Mat33.ey this));
          det = a * d - b * c;
          det = (if js_neq det (Num 0) then Num 1 / det else det)
      in M\<lparr>Mat33.ex := (det * d, (- det) * c, Num 0),
            Mat33.ey := ((- det) * b, det * a, Num 0),
            Mat33.ez := (Num 0, Num 0, Num 0)\<rparr>)"

definition Mat33_getSymInverse33 :: "('p::len0) Mat33 \<Rightarrow> 'p Mat33 \<Rightarrow> 'p Mat33" where
  "Mat33_getSymInverse33 this M =
     (let det = Vec3_dot (Mat33.ex this) (Vec3_cross (Mat33.ey this) (Mat33.ez this));
          det = (if js_neq det (Num 0) then Num 1 / det else det);
          a11 = fst (Mat33.ex this);
          a12 = fst (Mat33.ey this);
          a13 = fst (Mat33.ez this);
          a22 = fst (snd (Mat33.ey this));
          a23 = fst (snd (Mat33.ez this));
          a33 = snd (snd (Mat33.ez this));
          ex0 = det * (a22 * a33 - a23 * a23);
          ex1 = det * (a13 * a23 - a12 * a33);
          ex2 = det * (a12 * a23 - a13 * a22);
          ey0 = ex1;
          ey1 = det * (a11 * a33 - a13 * a13);
          ey2 = det * (a13 * a12 - a11 * a23);
          ez0 = ex2;
          ez1 = ey2;
          ez2 = det * (a11 * a22 - a12 * a12)
      in M\<lparr>Mat33.ex := (ex0, ex1, ex2), Mat33.ey := (ey0, ey1, ey2),
            Mat33.ez := (ez0, ez1, ez2)\<rparr>)"

section \<open>Bounding boxes: \<open>collision/AABB.ts\<close>\<close>

record 'p AABBValue =
  lowerBound :: "'p Vec2Value"
  upperBound :: "'p Vec2Value"

definition AABB_isValid :: "('p::len0) AABBValue option \<Rightarrow> bool" where
  "AABB_isValid obj =
     (case obj of
        None \<Rightarrow> False
      | Some b \<Rightarrow>
          Vec2_isValid (Some (lowerBound b)) \<and> Vec2_isValid (Some (upperBound b))
          \<and> Vec2_lengthSquared (Vec2_sub (upperBound b) (lowerBound b)) \<ge> Num 0)"

text \<open>
  The console after \<open>AABB.isValid(obj)\<close>: the conjunction is evaluated from the left and
  stops at the first false conjunct, so \<open>Vec2.sub\<close> and \<open>Vec2.lengthSquared\<close> run, and
  assert their arguments, only when both bounds are valid.
\<close>

definition AABB_isValid_console ::
  "bool \<Rightarrow> ('p::len0) AABBValue option \<Rightarrow> console \<Rightarrow> console" where
  "AABB_isValid_console ASSERT obj con =
     (case obj of
        None \<Rightarrow> con
      | Some b \<Rightarrow>
          if Vec2_isValid (Some (lowerBound b)) then
            if Vec2_isValid (Some (upperBound b)) then
              (let con = Vec2_sub_console ASSERT (upperBound b) (lowerBound b) con
               in Vec2_lengthSquared_console ASSERT
                    (Vec2_sub (upperBound b) (lowerBound b)) con)
            else con
          else con)"

text \<open>
  \<open>_ASSERT && console.assert(!AABB.isValid(o), 'Invalid AABB!', o)\<close>: the argument is
  evaluated, with what it writes, before \<open>console.assert\<close> is called.
\<close>

definition AABB_assert :: "bool \<Rightarrow> ('p::len0) AABBValue option \<Rightarrow> console \<Rightarrow> console" where
  "AABB_assert ASSERT obj con =
     (if ASSERT
      then console_assert (\<not> AABB_isValid obj) ''Invalid AABB!''
             (AABB_isValid_console ASSERT obj con)
      else con)"

definition AABB_getPerimeter :: "('p::len0) AABBValue \<Rightarrow> 'p jsnum" where
  "AABB_getPerimeter this =
     Num 2 * (fst (upperBound this) - fst (lowerBound this)
              + snd (upperBound this) - snd (lowerBound this))"

text \<open>\<open>combine(a, b?)\<close>: \<open>b = b || this\<close>, and the result is stored in \<open>this\<close>.\<close>

definition AABB_combine ::
  "('p::len0) AABBValue \<Rightarrow> 'p AABBValue \<Rightarrow> 'p AABBValue option \<Rightarrow> 'p AABBValue" where
  "AABB_combine this a b_opt =
     (let b = (case b_opt of None \<Rightarrow> this | Some b' \<Rightarrow> b');
          lowerA = lowerBound a;
          upperA = upperBound a;
          lowerB = lowerBound b;
          upperB = upperBound b;
          lowerX = math_min (fst lowerA) (fst lowerB);
          lowerY = math_min (snd lowerA) (snd lowerB);
          upperX = math_max (fst upperB) (fst upperA);
          upperY = math_max (snd upperB) (snd upperA)
      in this\<lparr>lowerBound := Vec2_set lowerX lowerY (lowerBound this),
               upperBound := Vec2_set upperX upperY (upperBound this)\<rparr>)"

definition AABB_combinedPerimeter :: "('p::len0) AABBValue \<Rightarrow> 'p AABBValue \<Rightarrow> 'p jsnum" where
  "AABB_combinedPerimeter a b =
     (let lx = math_min (fst (lowerBound a)) (fst (lowerBound b));
          ly = math_min (snd (lowerBound a)) (snd (lowerBound b));
          ux = math_max (fst (upperBound a)) (fst (upperBound b));
          uy = math_max (snd (upperBound a)) (snd (upperBound b))
      in Num 2 * (ux - lx + uy - ly))"


subsection \<open>\<open>AABB.rayCast\<close>\<close>

text \<open>
  The ray points, the direction and the bounds are arrays, as their type \<open>Vec2Value\<close>
  says, with no properties beside their elements; the loop variable \<open>f\<close> runs
  over the keys \<open>'x'\<close> and \<open>'y'\<close>, and every \<open>v[f]\<close> is a property read by that key.
  The local \<open>normal\<close> is written under the key \<open>f\<close> as well, so it is an array object
  that can carry named properties beside its two elements: a pair of the elements and
  the list of the named properties assigned so far (latest first).
\<close>

type_synonym 'p JsArray2 = "'p Vec2Value \<times> (string \<times> 'p jsnum) list"

definition JsArray2_get :: "('p::len0) JsArray2 \<Rightarrow> string \<Rightarrow> 'p jsval" where
  "JsArray2_get arr k =
     (if k = ''0'' \<or> k = ''1'' \<or> k = ''length'' then Vec2_prop (fst arr) k
      else (case map_of (snd arr) k of None \<Rightarrow> JUndefined | Some n \<Rightarrow> JNumber n))"

definition JsArray2_set :: "('p::len0) JsArray2 \<Rightarrow> string \<Rightarrow> 'p jsnum \<Rightarrow> 'p JsArray2" where
  "JsArray2_set arr k n =
     (if k = ''0'' then ((n, snd (fst arr)), snd arr)
      else if k = ''1'' then ((fst (fst arr), n), snd arr)
      else (fst arr, (k, n) # snd arr))"

definition JsArray2_setZero :: "('p::len0) JsArray2 \<Rightarrow> 'p JsArray2" where
  "JsArray2_setZero arr = (Vec2_setZero (fst arr), snd arr)"

record 'p RayCastInput =
  p1 :: "'p Vec2Value"
  p2 :: "'p Vec2Value"
  maxFraction :: "'p jsnum"

record 'p RayCastOutput =
  normal :: "'p JsArray2"
  fraction :: "'p jsnum"

text \<open>
  One pass of the loop body on the locals \<open>(tmin, tmax, normal)\<close>; \<open>None\<close> is the
  \<open>return false\<close> inside the loop. \<open>EPSILON\<close> is imported from \<open>common/Math\<close>, which
  is not among the sources, and is a parameter.
\<close>

definition rayCast_body ::
  "('p::len0) jsnum \<Rightarrow> 'p AABBValue \<Rightarrow> 'p Vec2Value \<Rightarrow> 'p Vec2Value \<Rightarrow> 'p Vec2Value \<Rightarrow> string
   \<Rightarrow> 'p jsnum \<times> 'p jsnum \<times> 'p JsArray2 \<Rightarrow> ('p jsnum \<times> 'p jsnum \<times> 'p JsArray2) option" where
  "rayCast_body EPSILON this p d absD f st =
     (case st of (tmin, tmax, nrm) \<Rightarrow>
        if fst absD < EPSILON then
          (if ToNumber (Vec2_prop p f) < ToNumber (Vec2_prop (lowerBound this) f)
              \<or> ToNumber (Vec2_prop (upperBound this) f) < ToNumber (Vec2_prop p f)
           then None
           else Some (tmin, tmax, nrm))
        else
          (let inv_d = Num 1 / ToNumber (Vec2_prop d f);
               t1 = (ToNumber (Vec2_prop (lowerBound this) f) - ToNumber (Vec2_prop p f)) * inv_d;
               t2 = (ToNumber (Vec2_prop (upperBound this) f) - ToNumber (Vec2_prop p f)) * inv_d;
               s = Num (- 1);
               (t1, t2, s) = (if t1 > t2 then (t2, t1, Num 1) else (t1, t2, s));
               (nrm, tmin) =
                 (if t1 > tmin then (JsArray2_set (JsArray2_setZero nrm) f s, t1)
                  else (nrm, tmin));
               tmax = math_min tmax t2
           in if tmin > tmax then None else Some (tmin, tmax, nrm)))"

text \<open>
  \<open>for (let f = 'x'; f !== null; f = (f === 'x' ? 'y' : null))\<close>, with \<open>None\<close> for
  \<open>null\<close> as the value of \<open>f\<close>.
\<close>

function rayCast_loop ::
  "('p::len0) jsnum \<Rightarrow> 'p AABBValue \<Rightarrow> 'p Vec2Value \<Rightarrow> 'p Vec2Value \<Rightarrow> 'p Vec2Value \<Rightarrow> string option
   \<Rightarrow> 'p jsnum \<times> 'p jsnum \<times> 'p JsArray2 \<Rightarrow> ('p jsnum \<times> 'p jsnum \<times> 'p JsArray2) option" where
  "rayCast_loop EPSILON this p d absD None st = Some st"
| "rayCast_loop EPSILON this p d absD (Some f) st =
     (case rayCast_body EPSILON this p d absD f st of
        None \<Rightarrow> None
      | Some st' \<Rightarrow>
          rayCast_loop EPSILON this p d absD (if f = ''x'' then Some ''y'' else None) st')"
  by pat_completeness auto
termination
  by (relation "measure (\<lambda>(EPSILON, this, p, d, absD, f, st).
        case f of None \<Rightarrow> 0 | Some k \<Rightarrow> if k = ''x'' then 2 else 1)") auto

definition AABB_rayCast ::
  "('p::len0) jsnum \<Rightarrow> 'p AABBValue \<Rightarrow> 'p RayCastOutput \<Rightarrow> 'p RayCastInput
   \<Rightarrow> bool \<times> 'p RayCastOutput" where
  "AABB_rayCast EPSILON this output input =
     (let tmin = NegInf;
          tmax = PosInf;
          p = p1 input;
          d = Vec2_sub (p2 input) (p1 input);
          absD = Vec2_abs d;
          nrm = (Vec2_zero, [])
      in case rayCast_loop EPSILON this p d absD (Some ''x'') (tmin, tmax, nrm) of
           None \<Rightarrow> (False, output)
         | Some (tmin, tmax, nrm) \<Rightarrow>
             if tmin < Num 0 \<or> maxFraction input < tmin then (False, output)
             else (True, output\<lparr>fraction := tmin, normal := nrm\<rparr>))"

section \<open>Out-parameter vector functions: \<open>common/Matrix.ts\<close>\<close>

text \<open>
  \<open>addVec2(out, v, w)\<close> stores \<open>out[0]\<close> and then reads \<open>v[0]\<close> again for
  \<open>out[1]\<close>, so what it computes depends on whether \<open>out\<close> is the same array as
  \<open>v\<close>. It is modelled on a store of arrays, its arguments being addresses, and
  returns the store together with the address it returns.
\<close>

type_synonym addr = nat

type_synonym 'p store = "addr \<Rightarrow> 'p Vec2Value"

definition addVec2 :: "('p::len0) store \<Rightarrow> addr \<Rightarrow> addr \<Rightarrow> addr \<Rightarrow> 'p store \<times> addr" where
  "addVec2 h out v w =
     (let h1 = h(out := (fst (h v) + fst (h w), snd (h out)));
          h2 = h1(out := (fst (h1 out), fst (h1 v) + snd (h1 w)))
      in (h2, out))"

text \<open>
  \<open>transformVec2\<close> and \<open>detransformVec2\<close> compute both components into locals
  before they store them in \<open>out\<close>; the array they return is a function of the
  values of \<open>xf\<close> and \<open>v\<close>.
\<close>

record 'p RotValue =
  s :: "'p jsnum"
  c :: "'p jsnum"

record 'p TransformValue =
  p :: "'p Vec2Value"
  q :: "'p RotValue"

definition transformVec2 ::
  "('p::len0) Vec2Value \<Rightarrow> 'p TransformValue \<Rightarrow> 'p Vec2Value \<Rightarrow> 'p Vec2Value" where
  "transformVec2 out xf v =
     (let x = c (q xf) * fst v - s (q xf) * snd v + fst (p xf);
          y = s (q xf) * fst v + c (q xf) * snd v + snd (p xf)
      in (x, y))"

definition detransformVec2 ::
  "('p::len0) Vec2Value \<Rightarrow> 'p TransformValue \<Rightarrow> 'p Vec2Value \<Rightarrow> 'p Vec2Value" where
  "detransformVec2 out xf v =
     (let px = fst v - fst (p xf);
          py = snd v - snd (p xf);
          x = c (q xf) * px + s (q xf) * py;
          y = (- s (q xf)) * px + c (q xf) * py
      in (x, y))"


section \<open>Joints: \<open>dynamics/joint\<close>\<close>

text \<open>
  A joint holds its two bodies, \<open>m_bodyA\<close> and \<open>m_bodyB\<close>, which are two different
  objects. The solver functions read and update the bodies' solver state through the
  joint, so a function on a joint returns the joint with its bodies. Of \<open>Body\<close> only
  the fields the joints use are kept; \<open>c_position_c\<close> stands for \<open>c_position.c\<close>,
  and so on. \<open>TimeStep\<close> and \<open>Settings\<close> are declared outside the sources and are
  records of the fields used; the settings are a parameter of every function that reads
  them.

  The constructors leave the solver's temporary fields (\<open>m_rA\<close>, \<open>m_localCenterA\<close>,
  \<open>m_invMassA\<close>, \<open>m_u\<close> and the like) unset, and \<open>initVelocityConstraints\<close> assigns
  them. The directions \<open>m_u\<close> of a \<open>RopeJoint\<close> and \<open>m_uA\<close>, \<open>m_uB\<close> of a
  \<open>PulleyJoint\<close> are read by \<open>getReactionForce\<close>, which can be called on a joint at
  any time: they are options, \<open>None\<close> being \<open>undefined\<close>, and reading an element of
  \<open>undefined\<close> throws a \<open>TypeError\<close>. The other temporary fields are read by the solver
  functions only, which the solver calls after \<open>initVelocityConstraints\<close>; they are of
  their declared types.

  In a solver function each assignment \<open>this.m_x = e\<close> binds the local \<open>m_x'\<close>, a
  later read of \<open>this.m_x\<close> is a read of \<open>m_x'\<close>, and the fields assigned are stored
  in the joint where the function returns.
\<close>

record 'p Body =
  m_sweep_localCenter :: "'p Vec2Value"
  m_invMass :: "'p jsnum"
  m_invI :: "'p jsnum"
  c_position_c :: "'p Vec2Value"
  c_position_a :: "'p jsnum"
  c_velocity_v :: "'p Vec2Value"
  c_velocity_w :: "'p jsnum"

record 'p TimeStep =
  dt :: "'p jsnum"
  inv_dt :: "'p jsnum"
  dtRatio :: "'p jsnum"
  warmStarting :: bool

record 'p SettingsInternal =
  linearSlop :: "'p jsnum"

text \<open>
  Modelled from the spec: \<open>common/Rot.ts\<close> is not among the sources. The spec has a
  rotation as the (sin, cos) pair of an angle that is applied to vectors: \<open>Rot.neo\<close>
  makes the pair of an angle, \<open>Rot.mulVec2(q, v)\<close> is a new array holding \<open>v\<close> rotated,
  and \<open>Rot.mulSub(q, v, w)\<close> a new array holding \<open>v - w\<close> rotated. The general statements
  below are in terms of these three functions and hold whatever they compute; the
  examples evaluate them at the angle 0.
\<close>

definition Rot_neo :: "('p::len0) jsnum \<Rightarrow> 'p RotValue" where
  "Rot_neo angle = \<lparr>s = math_sin angle, c = math_cos angle\<rparr>"

definition Rot_mulVec2 :: "('p::len0) RotValue \<Rightarrow> 'p Vec2Value \<Rightarrow> 'p Vec2Value" where
  "Rot_mulVec2 rot v =
     (let x = c rot * fst v - s rot * snd v;
          y = s rot * fst v + c rot * snd v
      in (x, y))"

definition Rot_mulSub ::
  "('p::len0) RotValue \<Rightarrow> 'p Vec2Value \<Rightarrow> 'p Vec2Value \<Rightarrow> 'p Vec2Value" where
  "Rot_mulSub rot v w =
     (let x = c rot * (fst v - fst w) - s rot * (snd v - snd w);
          y = s rot * (fst v - fst w) + c rot * (snd v - snd w)
      in (x, y))"


subsection \<open>\<open>FrictionJoint\<close>\<close>

record 'p FrictionJoint =
  m_bodyA :: "'p Body"
  m_bodyB :: "'p Body"
  m_localAnchorA :: "'p Vec2Value"
  m_localAnchorB :: "'p Vec2Value"
  m_linearImpulse :: "'p Vec2Value"
  m_angularImpulse :: "'p jsnum"
  m_maxForce :: "'p jsnum"
  m_maxTorque :: "'p jsnum"
  m_rA :: "'p Vec2Value"
  m_rB :: "'p Vec2Value"
  m_localCenterA :: "'p Vec2Value"
  m_localCenterB :: "'p Vec2Value"
  m_invMassA :: "'p jsnum"
  m_invMassB :: "'p jsnum"
  m_invIA :: "'p jsnum"
  m_invIB :: "'p jsnum"
  m_linearMass :: "'p Mat22"
  m_angularMass :: "'p jsnum"



definition FrictionJoint_initVelocityConstraints ::
  "('p::len0) FrictionJoint \<Rightarrow> 'p TimeStep \<Rightarrow> 'p FrictionJoint" where
  "FrictionJoint_initVelocityConstraints this step =
     (let bodyA = FrictionJoint.m_bodyA this;
          bodyB = FrictionJoint.m_bodyB this;
          m_localCenterA' = m_sweep_localCenter bodyA;
          m_localCenterB' = m_sweep_localCenter bodyB;
          m_invMassA' = m_invMass bodyA;
          m_invMassB' = m_invMass bodyB;
          m_invIA' = m_invI bodyA;
          m_invIB' = m_invI bodyB;
          aA = c_position_a bodyA;
          vA = c_velocity_v bodyA;
          wA = c_velocity_w bodyA;
          aB = c_position_a bodyB;
          vB = c_velocity_v bodyB;
          wB = c_velocity_w bodyB;
          qA = Rot_neo aA;
          qB = Rot_neo aB;
          m_rA' = Rot_mulVec2 qA (Vec2_sub (FrictionJoint.m_localAnchorA this) m_localCenterA');
          m_rB' = Rot_mulVec2 qB (Vec2_sub (FrictionJoint.m_localAnchorB this) m_localCenterB');
          mA = m_invMassA';
          mB = m_invMassB';
          iA = m_invIA';
          iB = m_invIB';
          K = Mat22_new;
          K = K\<lparr>Mat22.ex := (mA + mB + iA * snd m_rA' * snd m_rA' + iB * snd m_rB' * snd m_rB',
                              snd (Mat22.ex K))\<rparr>;
          K = K\<lparr>Mat22.ex := (fst (Mat22.ex K),
                              (- iA) * fst m_rA' * snd m_rA' - iB * fst m_rB' * snd m_rB')\<rparr>;
          K = K\<lparr>Mat22.ey := (snd (Mat22.ex K), snd (Mat22.ey K))\<rparr>;
          K = K\<lparr>Mat22.ey := (fst (Mat22.ey K),
                              mA + mB + iA * fst m_rA' * fst m_rA' + iB * fst m_rB' * fst m_rB')\<rparr>;
          m_linearMass' = Mat22_getInverse K;
          m_angularMass' = iA + iB;
          m_angularMass' = (if m_angularMass' > Num 0 then Num 1 / m_angularMass'
                            else m_angularMass');
          (m_linearImpulse', m_angularImpulse', vA, wA, vB, wB) =
            (if warmStarting step then
               (let m_linearImpulse' =
                      Vec2_scale (FrictionJoint.m_linearImpulse this) (dtRatio step);
                    m_angularImpulse' = FrictionJoint.m_angularImpulse this * dtRatio step;
                    P = Vec2_create (fst m_linearImpulse') (snd m_linearImpulse');
                    vA = Vec2_subMul vA mA P;
                    wA = wA - iA * (Vec2_crossVec2Vec2 m_rA' P + m_angularImpulse');
                    vB = Vec2_addMul vB mB P;
                    wB = wB + iB * (Vec2_crossVec2Vec2 m_rB' P + m_angularImpulse')
                in (m_linearImpulse', m_angularImpulse', vA, wA, vB, wB))
             else
               (Vec2_setZero (FrictionJoint.m_linearImpulse this), Num 0, vA, wA, vB, wB))
      in this\<lparr>FrictionJoint.m_localCenterA := m_localCenterA',
               FrictionJoint.m_localCenterB := m_localCenterB',
               FrictionJoint.m_invMassA := m_invMassA',
               FrictionJoint.m_invMassB := m_invMassB',
               FrictionJoint.m_invIA := m_invIA',
               FrictionJoint.m_invIB := m_invIB',
               FrictionJoint.m_rA := m_rA',
               FrictionJoint.m_rB := m_rB',
               FrictionJoint.m_linearMass := m_linearMass',
               FrictionJoint.m_angularMass := m_angularMass',
               FrictionJoint.m_linearImpulse := m_linearImpulse',
               FrictionJoint.m_angularImpulse := m_angularImpulse',
               FrictionJoint.m_bodyA := bodyA\<lparr>c_velocity_v := vA, c_velocity_w := wA\<rparr>,
               FrictionJoint.m_bodyB := bodyB\<lparr>c_velocity_v := vB, c_velocity_w := wB\<rparr>\<rparr>)"

subsection \<open>\<open>WeldJoint\<close>\<close>

record 'p WeldJoint =
  m_bodyA :: "'p Body"
  m_bodyB :: "'p Body"
  m_localAnchorA :: "'p Vec2Value"
  m_localAnchorB :: "'p Vec2Value"
  m_referenceAngle :: "'p jsnum"
  m_frequencyHz :: "'p jsnum"
  m_dampingRatio :: "'p jsnum"
  m_impulse :: "'p Vec3Value"
  m_bias :: "'p jsnum"
  m_gamma :: "'p jsnum"
  m_rA :: "'p Vec2Value"
  m_rB :: "'p Vec2Value"
  m_localCenterA :: "'p Vec2Value"
  m_localCenterB :: "'p Vec2Value"
  m_invMassA :: "'p jsnum"
  m_invMassB :: "'p jsnum"
  m_invIA :: "'p jsnum"
  m_invIB :: "'p jsnum"
  m_mass :: "'p Mat33"



definition math_PI :: "('p::len0) jsnum" where
  "math_PI = Num pi"

definition WeldJoint_initVelocityConstraints ::
  "('p::len0) WeldJoint \<Rightarrow> 'p TimeStep \<Rightarrow> 'p WeldJoint" where
  "WeldJoint_initVelocityConstraints this step =
     (let bodyA = WeldJoint.m_bodyA this;
          bodyB = WeldJoint.m_bodyB this;
          m_localCenterA' = m_sweep_localCenter bodyA;
          m_localCenterB' = m_sweep_localCenter bodyB;
          m_invMassA' = m_invMass bodyA;
          m_invMassB' = m_invMass bodyB;
          m_invIA' = m_invI bodyA;
          m_invIB' = m_invI bodyB;
          aA = c_position_a bodyA;
          vA = c_velocity_v bodyA;
          wA = c_velocity_w bodyA;
          aB = c_position_a bodyB;
          vB = c_velocity_v bodyB;
          wB = c_velocity_w bodyB;
          qA = Rot_neo aA;
          qB = Rot_neo aB;
          m_rA' = Rot_mulVec2 qA (Vec2_sub (WeldJoint.m_localAnchorA this) m_localCenterA');
          m_rB' = Rot_mulVec2 qB (Vec2_sub (WeldJoint.m_localAnchorB this) m_localCenterB');
          mA = m_invMassA';
          mB = m_invMassB';
          iA = m_invIA';
          iB = m_invIB';
          K_ex0 = mA + mB + snd m_rA' * snd m_rA' * iA + snd m_rB' * snd m_rB' * iB;
          K_ey0 = (- snd m_rA') * fst m_rA' * iA - snd m_rB' * fst m_rB' * iB;
          K_ez0 = (- snd m_rA') * iA - snd m_rB' * iB;
          K_ex1 = K_ey0;
          K_ey1 = mA + mB + fst m_rA' * fst m_rA' * iA + fst m_rB' * fst m_rB' * iB;
          K_ez1 = fst m_rA' * iA + fst m_rB' * iB;
          K_ex2 = K_ez0;
          K_ey2 = K_ez1;
          K_ez2 = iA + iB;
          K = \<lparr>Mat33.ex = (K_ex0, K_ex1, K_ex2), Mat33.ey = (K_ey0, K_ey1, K_ey2),
               Mat33.ez = (K_ez0, K_ez1, K_ez2)\<rparr>;
          (m_mass', m_gamma', m_bias') =
            (if WeldJoint.m_frequencyHz this > Num 0 then
               (let m_mass' = Mat33_getInverse22 K (WeldJoint.m_mass this);
                    invM = iA + iB;
                    m = (if invM > Num 0 then Num 1 / invM else Num 0);
                    C = aB - aA - WeldJoint.m_referenceAngle this;
                    omega = Num 2 * math_PI * WeldJoint.m_frequencyHz this;
                    d = Num 2 * m * WeldJoint.m_dampingRatio this * omega;
                    k = m * omega * omega;
                    h = dt step;
                    m_gamma' = h * (d + h * k);
                    m_gamma' = (if js_neq m_gamma' (Num 0) then Num 1 / m_gamma' else Num 0);
                    m_bias' = C * h * k * m_gamma';
                    invM = invM + m_gamma';
                    m_mass' = m_mass'\<lparr>Mat33.ez :=
                                (fst (Mat33.ez m_mass'), fst (snd (Mat33.ez m_mass')),
                                 if js_neq invM (Num 0) then Num 1 / invM else Num 0)\<rparr>
                in (m_mass', m_gamma', m_bias'))
             else if js_eq K_ez2 (Num 0) then
               (Mat33_getInverse22 K (WeldJoint.m_mass this), Num 0, Num 0)
             else
               (Mat33_getSymInverse33 K (WeldJoint.m_mass this), Num 0, Num 0));
          (m_impulse', vA, wA, vB, wB) =
            (if warmStarting step then
               (let m_impulse' = WeldJoint.m_impulse this;
                    m_impulse' = Vec3_set (fst m_impulse' * dtRatio step)
                                          (fst (snd m_impulse') * dtRatio step)
                                          (snd (snd m_impulse')) m_impulse';
                    P = Vec2_create (fst m_impulse') (fst (snd m_impulse'));
                    vA = Vec2_subMul vA mA P;
                    wA = wA - iA * (Vec2_crossVec2Vec2 m_rA' P + snd (snd m_impulse'));
                    vB = Vec2_addMul vB mB P;
                    wB = wB + iB * (Vec2_crossVec2Vec2 m_rB' P + snd (snd m_impulse'))
                in (m_impulse', vA, wA, vB, wB))
             else (Vec3_setZero (WeldJoint.m_impulse this), vA, wA, vB, wB))
      in this\<lparr>WeldJoint.m_localCenterA := m_localCenterA',
               WeldJoint.m_localCenterB := m_localCenterB',
               WeldJoint.m_invMassA := m_invMassA',
               WeldJoint.m_invMassB := m_invMassB',
               WeldJoint.m_invIA := m_invIA',
               WeldJoint.m_invIB := m_invIB',
               WeldJoint.m_rA := m_rA',
               WeldJoint.m_rB := m_rB',
               WeldJoint.m_mass := m_mass',
               WeldJoint.m_gamma := m_gamma',
               WeldJoint.m_bias := m_bias',
               WeldJoint.m_impulse := m_impulse',
               WeldJoint.m_bodyA := bodyA\<lparr>c_velocity_v := vA, c_velocity_w := wA\<rparr>,
               WeldJoint.m_bodyB := bodyB\<lparr>c_velocity_v := vB, c_velocity_w := wB\<rparr>\<rparr>)"

subsection \<open>\<open>PulleyJoint\<close>\<close>

record 'p PulleyJoint =
  m_bodyA :: "'p Body"
  m_bodyB :: "'p Body"
  m_groundAnchorA :: "'p Vec2Value"
  m_groundAnchorB :: "'p Vec2Value"
  m_localAnchorA :: "'p Vec2Value"
  m_localAnchorB :: "'p Vec2Value"
  m_lengthA :: "'p jsnum"
  m_lengthB :: "'p jsnum"
  m_ratio :: "'p jsnum"
  m_constant :: "'p jsnum"
  m_impulse :: "'p jsnum"
  m_uA :: "'p Vec2Value option"
  m_uB :: "'p Vec2Value option"
  m_rA :: "'p Vec2Value"
  m_rB :: "'p Vec2Value"
  m_localCenterA :: "'p Vec2Value"
  m_localCenterB :: "'p Vec2Value"
  m_invMassA :: "'p jsnum"
  m_invMassB :: "'p jsnum"
  m_invIA :: "'p jsnum"
  m_invIB :: "'p jsnum"
  m_mass :: "'p jsnum"



definition PulleyJoint_initVelocityConstraints ::
  "('p::len0) SettingsInternal \<Rightarrow> 'p PulleyJoint \<Rightarrow> 'p TimeStep \<Rightarrow> 'p PulleyJoint" where
  "PulleyJoint_initVelocityConstraints Settings this step =
     (let bodyA = PulleyJoint.m_bodyA this;
          bodyB = PulleyJoint.m_bodyB this;
          m_localCenterA' = m_sweep_localCenter bodyA;
          m_localCenterB' = m_sweep_localCenter bodyB;
          m_invMassA' = m_invMass bodyA;
          m_invMassB' = m_invMass bodyB;
          m_invIA' = m_invI bodyA;
          m_invIB' = m_invI bodyB;
          cA = c_position_c bodyA;
          aA = c_position_a bodyA;
          vA = c_velocity_v bodyA;
          wA = c_velocity_w bodyA;
          cB = c_position_c bodyB;
          aB = c_position_a bodyB;
          vB = c_velocity_v bodyB;
          wB = c_velocity_w bodyB;
          qA = Rot_neo aA;
          qB = Rot_neo aB;
          m_rA' = Rot_mulVec2 qA (Vec2_sub (PulleyJoint.m_localAnchorA this) m_localCenterA');
          m_rB' = Rot_mulVec2 qB (Vec2_sub (PulleyJoint.m_localAnchorB this) m_localCenterB');
          m_uA' = Vec2_sub (Vec2_add cA m_rA') (PulleyJoint.m_groundAnchorA this);
          m_uB' = Vec2_sub (Vec2_add cB m_rB') (PulleyJoint.m_groundAnchorB this);
          lengthA = Vec2_length m_uA';
          lengthB = Vec2_length m_uB';
          m_uA' = (if lengthA > Num 10 * linearSlop Settings
                   then Vec2_scale m_uA' (Num 1 / lengthA) else Vec2_setZero m_uA');
          m_uB' = (if lengthB > Num 10 * linearSlop Settings
                   then Vec2_scale m_uB' (Num 1 / lengthB) else Vec2_setZero m_uB');
          ruA = Vec2_crossVec2Vec2 m_rA' m_uA';
          ruB = Vec2_crossVec2Vec2 m_rB' m_uB';
          mA = m_invMassA' + m_invIA' * ruA * ruA;
          mB = m_invMassB' + m_invIB' * ruB * ruB;
          m_mass' = mA + PulleyJoint.m_ratio this * PulleyJoint.m_ratio this * mB;
          m_mass' = (if m_mass' > Num 0 then Num 1 / m_mass' else m_mass');
          (m_impulse', vA, wA, vB, wB) =
            (if warmStarting step then
               (let m_impulse' = PulleyJoint.m_impulse this * dtRatio step;
                    PA = Vec2_mulNumVec2 (- m_impulse') m_uA';
                    PB = Vec2_mulNumVec2 ((- PulleyJoint.m_ratio this) * m_impulse') m_uB';
                    vA = Vec2_addMul vA m_invMassA' PA;
                    wA = wA + m_invIA' * Vec2_crossVec2Vec2 m_rA' PA;
                    vB = Vec2_addMul vB m_invMassB' PB;
                    wB = wB + m_invIB' * Vec2_crossVec2Vec2 m_rB' PB
                in (m_impulse', vA, wA, vB, wB))
             else (Num 0, vA, wA, vB, wB))
      in this\<lparr>PulleyJoint.m_localCenterA := m_localCenterA',
               PulleyJoint.m_localCenterB := m_localCenterB',
               PulleyJoint.m_invMassA := m_invMassA',
               PulleyJoint.m_invMassB := m_invMassB',
               PulleyJoint.m_invIA := m_invIA',
               PulleyJoint.m_invIB := m_invIB',
               PulleyJoint.m_rA := m_rA',
               PulleyJoint.m_rB := m_rB',
               PulleyJoint.m_uA := Some m_uA',
               PulleyJoint.m_uB := Some m_uB',
               PulleyJoint.m_mass := m_mass',
               PulleyJoint.m_impulse := m_impulse',
               PulleyJoint.m_bodyA := bodyA\<lparr>c_velocity_v := vA, c_velocity_w := wA\<rparr>,
               PulleyJoint.m_bodyB := bodyB\<lparr>c_velocity_v := vB, c_velocity_w := wB\<rparr>\<rparr>)"

text \<open>
  \<open>solvePositionConstraints\<close> returns whether the position error is within tolerance;
  the model returns the joint (with the corrected body positions) and that flag.
\<close>

definition PulleyJoint_solvePositionConstraints ::
  "('p::len0) SettingsInternal \<Rightarrow> 'p PulleyJoint \<Rightarrow> 'p TimeStep \<Rightarrow> 'p PulleyJoint \<times> bool" where
  "PulleyJoint_solvePositionConstraints Settings this step =
     (let bodyA = PulleyJoint.m_bodyA this;
          bodyB = PulleyJoint.m_bodyB this;
          cA = c_position_c bodyA;
          aA = c_position_a bodyA;
          cB = c_position_c bodyB;
          aB = c_position_a bodyB;
          qA = Rot_neo aA;
          qB = Rot_neo aB;
          rA = Rot_mulVec2 qA (Vec2_sub (PulleyJoint.m_localAnchorA this)
                                        (PulleyJoint.m_localCenterA this));
          rB = Rot_mulVec2 qB (Vec2_sub (PulleyJoint.m_localAnchorB this)
                                        (PulleyJoint.m_localCenterB this));
          uA = Vec2_sub (Vec2_add cA (PulleyJoint.m_rA this)) (PulleyJoint.m_groundAnchorA this);
          uB = Vec2_sub (Vec2_add cB (PulleyJoint.m_rB this)) (PulleyJoint.m_groundAnchorB this);
          lengthA = Vec2_length uA;
          lengthB = Vec2_length uB;
          uA = (if lengthA > Num 10 * linearSlop Settings
                then Vec2_scale uA (Num 1 / lengthA) else Vec2_setZero uA);
          uB = (if lengthB > Num 10 * linearSlop Settings
                then Vec2_scale uB (Num 1 / lengthB) else Vec2_setZero uB);
          ruA = Vec2_crossVec2Vec2 rA uA;
          ruB = Vec2_crossVec2Vec2 rB uB;
          mA = PulleyJoint.m_invMassA this + PulleyJoint.m_invIA this * ruA * ruA;
          mB = PulleyJoint.m_invMassB this + PulleyJoint.m_invIB this * ruB * ruB;
          mass = mA + PulleyJoint.m_ratio this * PulleyJoint.m_ratio this * mB;
          mass = (if mass > Num 0 then Num 1 / mass else mass);
          C = PulleyJoint.m_constant this - lengthA - PulleyJoint.m_ratio this * lengthB;
          linearError = \<bar>C\<bar>;
          impulse = (- mass) * C;
          PA = Vec2_mulNumVec2 (- impulse) uA;
          PB = Vec2_mulNumVec2 ((- PulleyJoint.m_ratio this) * impulse) uB;
          cA = Vec2_addMul cA (PulleyJoint.m_invMassA this) PA;
          aA = aA + PulleyJoint.m_invIA this * Vec2_crossVec2Vec2 rA PA;
          cB = Vec2_addMul cB (PulleyJoint.m_invMassB this) PB;
          aB = aB + PulleyJoint.m_invIB this * Vec2_crossVec2Vec2 rB PB
      in (this\<lparr>PulleyJoint.m_bodyA := bodyA\<lparr>c_position_c := cA, c_position_a := aA\<rparr>,
                PulleyJoint.m_bodyB := bodyB\<lparr>c_position_c := cB, c_position_a := aB\<rparr>\<rparr>,
          linearError < linearSlop Settings))"

subsection \<open>\<open>RopeJoint\<close>\<close>

datatype LimitState = inactiveLimit | atLowerLimit | atUpperLimit | equalLimits

record 'p RopeJoint =
  m_bodyA :: "'p Body"
  m_bodyB :: "'p Body"
  m_localAnchorA :: "'p Vec2Value"
  m_localAnchorB :: "'p Vec2Value"
  m_maxLength :: "'p jsnum"
  m_mass :: "'p jsnum"
  m_impulse :: "'p jsnum"
  m_length :: "'p jsnum"
  m_state :: LimitState
  m_u :: "'p Vec2Value option"
  m_rA :: "'p Vec2Value"
  m_rB :: "'p Vec2Value"
  m_localCenterA :: "'p Vec2Value"
  m_localCenterB :: "'p Vec2Value"
  m_invMassA :: "'p jsnum"
  m_invMassB :: "'p jsnum"
  m_invIA :: "'p jsnum"
  m_invIB :: "'p jsnum"



definition RopeJoint_initVelocityConstraints ::
  "('p::len0) SettingsInternal \<Rightarrow> 'p RopeJoint \<Rightarrow> 'p TimeStep \<Rightarrow> 'p RopeJoint" where
  "RopeJoint_initVelocityConstraints Settings this step =
     (let bodyA = RopeJoint.m_bodyA this;
          bodyB = RopeJoint.m_bodyB this;
          m_localCenterA' = m_sweep_localCenter bodyA;
          m_localCenterB' = m_sweep_localCenter bodyB;
          m_invMassA' = m_invMass bodyA;
          m_invMassB' = m_invMass bodyB;
          m_invIA' = m_invI bodyA;
          m_invIB' = m_invI bodyB;
          cA = c_position_c bodyA;
          aA = c_position_a bodyA;
          vA = c_velocity_v bodyA;
          wA = c_velocity_w bodyA;
          cB = c_position_c bodyB;
          aB = c_position_a bodyB;
          vB = c_velocity_v bodyB;
          wB = c_velocity_w bodyB;
          qA = Rot_neo aA;
          qB = Rot_neo aB;
          m_rA' = Rot_mulSub qA (RopeJoint.m_localAnchorA this) m_localCenterA';
          m_rB' = Rot_mulSub qB (RopeJoint.m_localAnchorB this) m_localCenterB';
          m_u' = Vec2_zero;
          m_u' = Vec2_addCombine m_u' (Num 1) cB (Num 1) m_rB';
          m_u' = Vec2_subCombine m_u' (Num 1) cA (Num 1) m_rA';
          m_length' = Vec2_length m_u';
          C = m_length' - RopeJoint.m_maxLength this;
          m_state' = (if C > Num 0 then atUpperLimit else inactiveLimit);
          this = this\<lparr>RopeJoint.m_localCenterA := m_localCenterA',
                       RopeJoint.m_localCenterB := m_localCenterB',
                       RopeJoint.m_invMassA := m_invMassA',
                       RopeJoint.m_invMassB := m_invMassB',
                       RopeJoint.m_invIA := m_invIA',
                       RopeJoint.m_invIB := m_invIB',
                       RopeJoint.m_rA := m_rA',
                       RopeJoint.m_rB := m_rB',
                       RopeJoint.m_length := m_length',
                       RopeJoint.m_state := m_state'\<rparr>
      in if m_length' > linearSlop Settings then
           (let m_u' = Vec2_scale m_u' (Num 1 / m_length');
                crA = Vec2_crossVec2Vec2 m_rA' m_u';
                crB = Vec2_crossVec2Vec2 m_rB' m_u';
                invMass = m_invMassA' + m_invIA' * crA * crA + m_invMassB' + m_invIB' * crB * crB;
                m_mass' = (if js_neq invMass (Num 0) then Num 1 / invMass else Num 0);
                (m_impulse', vA, wA, vB, wB) =
                  (if warmStarting step then
                     (let m_impulse' = RopeJoint.m_impulse this * dtRatio step;
                          P = Vec2_mulNumVec2 m_impulse' m_u';
                          vA = Vec2_subMul vA m_invMassA' P;
                          wA = wA - m_invIA' * Vec2_crossVec2Vec2 m_rA' P;
                          vB = Vec2_addMul vB m_invMassB' P;
                          wB = wB + m_invIB' * Vec2_crossVec2Vec2 m_rB' P
                      in (m_impulse', vA, wA, vB, wB))
                   else (Num 0, vA, wA, vB, wB))
            in this\<lparr>RopeJoint.m_u := Some m_u', RopeJoint.m_mass := m_mass',
                     RopeJoint.m_impulse := m_impulse',
                     RopeJoint.m_bodyA := bodyA\<lparr>c_velocity_v := vA, c_velocity_w := wA\<rparr>,
                     RopeJoint.m_bodyB := bodyB\<lparr>c_velocity_v := vB, c_velocity_w := wB\<rparr>\<rparr>)
         else
           this\<lparr>RopeJoint.m_u := Some (Vec2_setZero m_u'),
                  RopeJoint.m_mass := Num 0, RopeJoint.m_impulse := Num 0\<rparr>)"


section \<open>Example states\<close>

text \<open>
  Concrete bodies, joints and a time step, used where a statement is evaluated on an
  input; they are evaluated at precision \<open>exact\<close>. The bodies have unit inverse mass and
  unit inverse rotational inertia and are at rest with angle zero; the step has warm
  starting on and \<open>dtRatio = 2\<close>.
\<close>

definition example_body :: "exact Vec2Value \<Rightarrow> exact Body" where
  "example_body pos =
     \<lparr>m_sweep_localCenter = (Num 0, Num 0), m_invMass = Num 1, m_invI = Num 1,
      c_position_c = pos, c_position_a = Num 0,
      c_velocity_v = (Num 0, Num 0), c_velocity_w = Num 0\<rparr>"

definition example_step :: "exact TimeStep" where
  "example_step = \<lparr>dt = Num (1 / 60), inv_dt = Num 60, dtRatio = Num 2, warmStarting = True\<rparr>"

definition example_settings :: "exact SettingsInternal" where
  "example_settings = \<lparr>linearSlop = Num (1 / 200)\<rparr>"

definition example_friction :: "exact FrictionJoint" where
  "example_friction =
     \<lparr>FrictionJoint.m_bodyA = example_body (Num 0, Num 0),
      FrictionJoint.m_bodyB = example_body (Num 0, Num 0),
      FrictionJoint.m_localAnchorA = (Num 0, Num 0),
      FrictionJoint.m_localAnchorB = (Num 0, Num 0),
      FrictionJoint.m_linearImpulse = (Num 1, Num 3),
      FrictionJoint.m_angularImpulse = Num 5,
      FrictionJoint.m_maxForce = Num 0, FrictionJoint.m_maxTorque = Num 0,
      FrictionJoint.m_rA = (Num 0, Num 0), FrictionJoint.m_rB = (Num 0, Num 0),
      FrictionJoint.m_localCenterA = (Num 0, Num 0),
      FrictionJoint.m_localCenterB = (Num 0, Num 0),
      FrictionJoint.m_invMassA = Num 1, FrictionJoint.m_invMassB = Num 1,
      FrictionJoint.m_invIA = Num 1, FrictionJoint.m_invIB = Num 1,
      FrictionJoint.m_linearMass = Mat22_new, FrictionJoint.m_angularMass = Num 0\<rparr>"

definition example_weld :: "exact WeldJoint" where
  "example_weld =
     \<lparr>WeldJoint.m_bodyA = example_body (Num 0, Num 0),
      WeldJoint.m_bodyB = example_body (Num 0, Num 0),
      WeldJoint.m_localAnchorA = (Num 0, Num 0), WeldJoint.m_localAnchorB = (Num 0, Num 0),
      WeldJoint.m_referenceAngle = Num 0, WeldJoint.m_frequencyHz = Num 0,
      WeldJoint.m_dampingRatio = Num 0, WeldJoint.m_impulse = (Num 1, Num 1, Num 1),
      WeldJoint.m_bias = Num 0, WeldJoint.m_gamma = Num 0,
      WeldJoint.m_rA = (Num 0, Num 0), WeldJoint.m_rB = (Num 0, Num 0),
      WeldJoint.m_localCenterA = (Num 0, Num 0), WeldJoint.m_localCenterB = (Num 0, Num 0),
      WeldJoint.m_invMassA = Num 1, WeldJoint.m_invMassB = Num 1,
      WeldJoint.m_invIA = Num 1, WeldJoint.m_invIB = Num 1, WeldJoint.m_mass = Mat33_new\<rparr>"

text \<open>
  A pulley with body A at \<open>posA\<close>, body B and both ground anchors at the origin, and
  ratio 1. Its stored arm \<open>m_rA = (1, 0)\<close>, the local anchor \<open>(0, 1)\<close> turned by a
  quarter, differs from the arm that the local anchor gives at the current angle 0, which
  is \<open>(0, 1)\<close>.
\<close>

definition example_pulley :: "exact Vec2Value \<Rightarrow> exact PulleyJoint" where
  "example_pulley posA =
     \<lparr>PulleyJoint.m_bodyA = example_body posA,
      PulleyJoint.m_bodyB = example_body (Num 0, Num 0),
      PulleyJoint.m_groundAnchorA = (Num 0, Num 0), PulleyJoint.m_groundAnchorB = (Num 0, Num 0),
      PulleyJoint.m_localAnchorA = (Num 0, Num 1), PulleyJoint.m_localAnchorB = (Num 0, Num 0),
      PulleyJoint.m_lengthA = Num 4, PulleyJoint.m_lengthB = Num 0,
      PulleyJoint.m_ratio = Num 1, PulleyJoint.m_constant = Num 4,
      PulleyJoint.m_impulse = Num 3,
      PulleyJoint.m_uA = Some (Num 1, Num 0), PulleyJoint.m_uB = Some (Num 0, Num 0),
      PulleyJoint.m_rA = (Num 1, Num 0), PulleyJoint.m_rB = (Num 0, Num 0),
      PulleyJoint.m_localCenterA = (Num 0, Num 0), PulleyJoint.m_localCenterB = (Num 0, Num 0),
      PulleyJoint.m_invMassA = Num 1, PulleyJoint.m_invMassB = Num 1,
      PulleyJoint.m_invIA = Num 1, PulleyJoint.m_invIB = Num 1, PulleyJoint.m_mass = Num 0\<rparr>"

text \<open>
  A rope of maximal length 1 between a body at the origin and a body at \<open>posB\<close>, with
  the accumulated impulse \<open>-1\<close> (the velocity solver keeps a rope's impulse at or below
  zero).
\<close>

definition example_rope :: "exact Vec2Value \<Rightarrow> exact RopeJoint" where
  "example_rope posB =
     \<lparr>RopeJoint.m_bodyA = example_body (Num 0, Num 0),
      RopeJoint.m_bodyB = example_body posB,
      RopeJoint.m_localAnchorA = (Num 0, Num 0), RopeJoint.m_localAnchorB = (Num 0, Num 0),
      RopeJoint.m_maxLength = Num 1, RopeJoint.m_mass = Num 0, RopeJoint.m_impulse = Num (- 1),
      RopeJoint.m_length = Num 0, RopeJoint.m_state = inactiveLimit,
      RopeJoint.m_u = Some (Num 1, Num 0),
      RopeJoint.m_rA = (Num 0, Num 0), RopeJoint.m_rB = (Num 0, Num 0),
      RopeJoint.m_localCenterA = (Num 0, Num 0), RopeJoint.m_localCenterB = (Num 0, Num 0),
      RopeJoint.m_invMassA = Num 1, RopeJoint.m_invMassB = Num 1,
      RopeJoint.m_invIA = Num 1, RopeJoint.m_invIB = Num 1\<rparr>"

text \<open>An object with the finite properties \<open>x\<close>, \<open>y\<close> and \<open>z\<close>.\<close>

definition example_xyz :: "exact jsobj" where
  "example_xyz k =
     (if k = ''x'' then JNumber (Num 1)
      else if k = ''y'' then JNumber (Num 2)
      else if k = ''z'' then JNumber (Num 3)
      else JUndefined)"


section \<open>Facts about the number model\<close>

lemma fl_exact [simp]: "(fl r :: exact jsnum) = Num r"
  by (simp add: fl_def)

lemma fl_zero [simp]: "fl 0 = Num 0"
  by (simp add: fl_def round_to_def)

lemma fl_not_NaN [simp]: "fl r \<noteq> NaN" "NaN \<noteq> fl r"
  by (simp_all add: fl_def Let_def)

lemma NaN_arith [simp]:
  "NaN + x = NaN" "x + NaN = NaN" "NaN - x = NaN" "x - NaN = NaN"
  "NaN * x = NaN" "x * NaN = NaN" "divide x NaN = NaN" "divide NaN x = NaN" "- NaN = NaN"
  by (cases x; simp add: minus_jsnum_def)+

lemma NaN_less [simp]: "\<not> NaN < x" "\<not> x < NaN" "\<not> NaN \<le> x" "\<not> x \<le> NaN"
  by (cases x; simp)+

lemma math_min_NaN [simp]: "math_min x NaN = NaN" "math_min NaN x = NaN"
  by (simp_all add: math_min_def)


lemma math_max_commute: "math_max x y = math_max y x"
  by (cases x; cases y) (auto simp: math_max_def)

lemma jsnum_diff_Num [simp]: "Num x - Num y = fl (x - y)"
  by (simp add: minus_jsnum_def)

lemma js_neq_zero_self [simp]: "\<not> js_neq (Num 0) (Num 0)"
  by (simp add: js_neq_def js_eq_def)

text \<open>A sum, a difference or a product is a real only if both operands are.\<close>

lemma jsnum_diff_NumE:
  assumes "x - y = Num r"
  obtains a b where "x = Num a" "y = Num b"
  using assms by (cases x; cases y) (simp_all add: minus_jsnum_def)

lemma jsnum_mult_NumE:
  assumes "x * y = Num r"
  obtains a b where "x = Num a" "y = Num b"
  using assms by (cases x; cases y) (simp_all split: if_splits)

text \<open>
  Rounding keeps the sign, so a square and a sum of squares are not below zero (they may
  be \<open>Infinity\<close>).
\<close>

lemma round_even_nonneg: "0 \<le> x \<Longrightarrow> 0 \<le> round_even x"
  by (simp add: round_even_def Let_def)

lemma round_to_nonneg: "0 \<le> r \<Longrightarrow> 0 \<le> round_to prec r"
  by (simp add: round_to_def Let_def round_even_nonneg)

lemma fl_ge0: "0 \<le> r \<Longrightarrow> Num 0 \<le> (fl r :: ('p::len0) jsnum)"
proof -
  assume r: "0 \<le> r"
  then have "0 \<le> round_to LENGTH('p) r"
    by (rule round_to_nonneg)
  with r show ?thesis
    by (auto simp: fl_def Let_def)
qed

lemma jsnum_square_ge0: "x \<noteq> NaN \<Longrightarrow> Num 0 \<le> x * x"
  by (cases x) (simp_all add: fl_ge0)

lemma jsnum_add_ge0: "Num 0 \<le> x \<Longrightarrow> Num 0 \<le> y \<Longrightarrow> Num 0 \<le> x + y"
  by (cases x; cases y) (simp_all add: fl_ge0)

text \<open>
  Rounding at a known binary exponent, and four roundings at precision \<open>binary64\<close>:
  1 and 2 are binary64 values, \<open>-2^1024\<close> overflows, and \<open>2^60 + 1\<close>, which needs 61
  bits, is rounded to \<open>2^60\<close>.
\<close>

lemma floor_log2:
  assumes "2 powr of_int e \<le> x" "x < 2 powr of_int (e + 1)"
  shows "\<lfloor>log 2 x\<rfloor> = e"
proof -
  have "(0::real) < 2 powr of_int e" by simp
  with assms(1) have pos: "0 < x" by linarith
  have "of_int e \<le> log 2 x" using assms(1) pos by (simp add: le_log_iff)
  moreover have "log 2 x < of_int e + 1" using assms(2) pos by (simp add: log_less_iff)
  ultimately show ?thesis by (simp add: floor_eq_iff)
qed

lemma round_to_eval:
  assumes "2 powr of_int e \<le> \<bar>r\<bar>" "\<bar>r\<bar> < 2 powr of_int (e + 1)" "- 1022 \<le> e"
  shows "round_to prec r =
           of_int (round_even (r / 2 powr of_int (e - (int prec - 1))))
           * 2 powr of_int (e - (int prec - 1))"
proof -
  have "(0::real) < 2 powr of_int e" by simp
  with assms(1) have "r \<noteq> 0" by linarith
  moreover have "\<lfloor>log 2 \<bar>r\<bar>\<rfloor> = e" using assms(1,2) by (rule floor_log2)
  ultimately show ?thesis using assms(3) by (simp add: round_to_def Let_def max_def)
qed

lemma binary64_one: "(fl 1 :: binary64 jsnum) = Num 1"
  using round_to_eval [of 0 1 53]
  by (simp add: fl_def powr_int powr_minus_divide round_even_def Let_def)

lemma binary64_two: "(fl 2 :: binary64 jsnum) = Num 2"
  using round_to_eval [of 1 2 53]
  by (simp add: fl_def powr_int powr_minus_divide round_even_def Let_def)

lemma binary64_overflow: "(fl (- (2 ^ 1024)) :: binary64 jsnum) = NegInf"
  using round_to_eval [of 1024 "- (2 ^ 1024)" 53]
  by (simp add: fl_def powr_int round_even_def)

lemma binary64_absorb: "(fl (2 ^ 60 + 1) :: binary64 jsnum) = Num (2 ^ 60)"
  using round_to_eval [of 60 "2 ^ 60 + 1" 53]
  by (simp add: fl_def powr_int round_even_def Let_def)

lemma sqrt_25 [simp]: "sqrt 25 = 5"
  using real_sqrt_abs [of 5] by simp

section \<open>The pulley joint's position solver\<close>

text \<open>\<open>initVelocityConstraints\<close> stores the arms it computes at the angles of that moment.\<close>

lemma PulleyJoint_init_stores_arms:
  "PulleyJoint.m_rA (PulleyJoint_initVelocityConstraints S pj step)
     = Rot_mulVec2 (Rot_neo (c_position_a (PulleyJoint.m_bodyA pj)))
         (Vec2_sub (PulleyJoint.m_localAnchorA pj) (m_sweep_localCenter (PulleyJoint.m_bodyA pj)))"
  "PulleyJoint.m_rB (PulleyJoint_initVelocityConstraints S pj step)
     = Rot_mulVec2 (Rot_neo (c_position_a (PulleyJoint.m_bodyB pj)))
         (Vec2_sub (PulleyJoint.m_localAnchorB pj) (m_sweep_localCenter (PulleyJoint.m_bodyB pj)))"
  by (simp_all add: PulleyJoint_initVelocityConstraints_def Let_def split_def)

lemma PulleyJoint_solvePosition_flag:
  "snd (PulleyJoint_solvePositionConstraints S pj step) =
     (\<bar>PulleyJoint.m_constant pj
        - Vec2_length (Vec2_sub (Vec2_add (c_position_c (PulleyJoint.m_bodyA pj))
                                          (PulleyJoint.m_rA pj))
                                (PulleyJoint.m_groundAnchorA pj))
        - PulleyJoint.m_ratio pj
          * Vec2_length (Vec2_sub (Vec2_add (c_position_c (PulleyJoint.m_bodyB pj))
                                            (PulleyJoint.m_rB pj))
                                  (PulleyJoint.m_groundAnchorB pj))\<bar>
      < linearSlop S)"
  by (simp add: PulleyJoint_solvePositionConstraints_def Let_def)

text \<open>
  The arms at the current angles come from the local anchors and the local centres; the
  position error and the flag computed from it do not depend on them.
\<close>

lemma PulleyJoint_solvePosition_flag_ignores_anchors:
  "snd (PulleyJoint_solvePositionConstraints S
          (pj\<lparr>PulleyJoint.m_localAnchorA := xa, PulleyJoint.m_localAnchorB := xb,
               PulleyJoint.m_localCenterA := ya, PulleyJoint.m_localCenterB := yb\<rparr>) step)
   = snd (PulleyJoint_solvePositionConstraints S pj step)"
  by (simp add: PulleyJoint_solvePosition_flag)

lemma PulleyJoint_solvePosition_result:
  "PulleyJoint_solvePositionConstraints S pj step =
     (let bodyA = PulleyJoint.m_bodyA pj;
          bodyB = PulleyJoint.m_bodyB pj;
          uA = Vec2_sub (Vec2_add (c_position_c bodyA) (PulleyJoint.m_rA pj))
                        (PulleyJoint.m_groundAnchorA pj);
          uB = Vec2_sub (Vec2_add (c_position_c bodyB) (PulleyJoint.m_rB pj))
                        (PulleyJoint.m_groundAnchorB pj);
          lengthA = Vec2_length uA;
          lengthB = Vec2_length uB;
          uA = (if lengthA > Num 10 * linearSlop S
                then Vec2_scale uA (Num 1 / lengthA) else Vec2_setZero uA);
          uB = (if lengthB > Num 10 * linearSlop S
                then Vec2_scale uB (Num 1 / lengthB) else Vec2_setZero uB);
          rA = Rot_mulVec2 (Rot_neo (c_position_a bodyA))
                 (Vec2_sub (PulleyJoint.m_localAnchorA pj) (PulleyJoint.m_localCenterA pj));
          rB = Rot_mulVec2 (Rot_neo (c_position_a bodyB))
                 (Vec2_sub (PulleyJoint.m_localAnchorB pj) (PulleyJoint.m_localCenterB pj));
          mass = PulleyJoint.m_invMassA pj
                   + PulleyJoint.m_invIA pj * Vec2_crossVec2Vec2 rA uA * Vec2_crossVec2Vec2 rA uA
                 + PulleyJoint.m_ratio pj * PulleyJoint.m_ratio pj
                   * (PulleyJoint.m_invMassB pj
                      + PulleyJoint.m_invIB pj * Vec2_crossVec2Vec2 rB uB
                        * Vec2_crossVec2Vec2 rB uB);
          C = PulleyJoint.m_constant pj - lengthA - PulleyJoint.m_ratio pj * lengthB;
          impulse = (- (if mass > Num 0 then Num 1 / mass else mass)) * C;
          PA = Vec2_mulNumVec2 (- impulse) uA;
          PB = Vec2_mulNumVec2 ((- PulleyJoint.m_ratio pj) * impulse) uB
      in (pj\<lparr>PulleyJoint.m_bodyA :=
                 bodyA\<lparr>c_position_c :=
                          Vec2_addMul (c_position_c bodyA) (PulleyJoint.m_invMassA pj) PA,
                        c_position_a :=
                          c_position_a bodyA
                          + PulleyJoint.m_invIA pj * Vec2_crossVec2Vec2 rA PA\<rparr>,
              PulleyJoint.m_bodyB :=
                 bodyB\<lparr>c_position_c :=
                          Vec2_addMul (c_position_c bodyB) (PulleyJoint.m_invMassB pj) PB,
                        c_position_a :=
                          c_position_a bodyB
                          + PulleyJoint.m_invIB pj * Vec2_crossVec2Vec2 rB PB\<rparr>\<rparr>,
          \<bar>C\<bar> < linearSlop S))"
  by (simp add: PulleyJoint_solvePositionConstraints_def Let_def)

text \<open>
  C1. What \<open>PulleyJoint.solvePositionConstraints\<close> returns, in full. The pulley axes
  are \<open>cA + m_rA - groundAnchorA\<close> and \<open>cB + m_rB - groundAnchorB\<close> with the fields
  \<open>m_rA\<close>, \<open>m_rB\<close>, normalised when longer than ten times \<open>linearSlop\<close> and zero
  otherwise; their lengths give the position error \<open>C\<close> and the flag, and the impulses
  \<open>PA\<close>, \<open>PB\<close> point along them. The arms \<open>rA\<close>, \<open>rB\<close> computed from the current
  angles enter the effective mass, through \<open>cross(rA, uA)\<close> and \<open>cross(rB, uB)\<close>, and
  the angular corrections \<open>invIA * cross(rA, PA)\<close> and \<open>invIB * cross(rB, PB)\<close>, and
  nothing else. The fields \<open>m_rA\<close>, \<open>m_rB\<close> are the arms that
  \<open>initVelocityConstraints\<close> computed at the angles of its call, and the flag does not
  change with the local anchors and centres, from which the current arms are computed.
\<close>

theorem PulleyJoint_solvePosition_axes_from_stored_arms:
  "PulleyJoint_solvePositionConstraints S pj step =
     (let bodyA = PulleyJoint.m_bodyA pj;
          bodyB = PulleyJoint.m_bodyB pj;
          uA = Vec2_sub (Vec2_add (c_position_c bodyA) (PulleyJoint.m_rA pj))
                        (PulleyJoint.m_groundAnchorA pj);
          uB = Vec2_sub (Vec2_add (c_position_c bodyB) (PulleyJoint.m_rB pj))
                        (PulleyJoint.m_groundAnchorB pj);
          lengthA = Vec2_length uA;
          lengthB = Vec2_length uB;
          uA = (if lengthA > Num 10 * linearSlop S
                then Vec2_scale uA (Num 1 / lengthA) else Vec2_setZero uA);
          uB = (if lengthB > Num 10 * linearSlop S
                then Vec2_scale uB (Num 1 / lengthB) else Vec2_setZero uB);
          rA = Rot_mulVec2 (Rot_neo (c_position_a bodyA))
                 (Vec2_sub (PulleyJoint.m_localAnchorA pj) (PulleyJoint.m_localCenterA pj));
          rB = Rot_mulVec2 (Rot_neo (c_position_a bodyB))
                 (Vec2_sub (PulleyJoint.m_localAnchorB pj) (PulleyJoint.m_localCenterB pj));
          mass = PulleyJoint.m_invMassA pj
                   + PulleyJoint.m_invIA pj * Vec2_crossVec2Vec2 rA uA * Vec2_crossVec2Vec2 rA uA
                 + PulleyJoint.m_ratio pj * PulleyJoint.m_ratio pj
                   * (PulleyJoint.m_invMassB pj
                      + PulleyJoint.m_invIB pj * Vec2_crossVec2Vec2 rB uB
                        * Vec2_crossVec2Vec2 rB uB);
          C = PulleyJoint.m_constant pj - lengthA - PulleyJoint.m_ratio pj * lengthB;
          impulse = (- (if mass > Num 0 then Num 1 / mass else mass)) * C;
          PA = Vec2_mulNumVec2 (- impulse) uA;
          PB = Vec2_mulNumVec2 ((- PulleyJoint.m_ratio pj) * impulse) uB
      in (pj\<lparr>PulleyJoint.m_bodyA :=
                 bodyA\<lparr>c_position_c :=
                          Vec2_addMul (c_position_c bodyA) (PulleyJoint.m_invMassA pj) PA,
                        c_position_a :=
                          c_position_a bodyA
                          + PulleyJoint.m_invIA pj * Vec2_crossVec2Vec2 rA PA\<rparr>,
              PulleyJoint.m_bodyB :=
                 bodyB\<lparr>c_position_c :=
                          Vec2_addMul (c_position_c bodyB) (PulleyJoint.m_invMassB pj) PB,
                        c_position_a :=
                          c_position_a bodyB
                          + PulleyJoint.m_invIB pj * Vec2_crossVec2Vec2 rB PB\<rparr>\<rparr>,
          \<bar>C\<bar> < linearSlop S))
   \<and> PulleyJoint.m_rA (PulleyJoint_initVelocityConstraints S pj0 step0)
       = Rot_mulVec2 (Rot_neo (c_position_a (PulleyJoint.m_bodyA pj0)))
           (Vec2_sub (PulleyJoint.m_localAnchorA pj0)
                     (m_sweep_localCenter (PulleyJoint.m_bodyA pj0)))
   \<and> PulleyJoint.m_rB (PulleyJoint_initVelocityConstraints S pj0 step0)
       = Rot_mulVec2 (Rot_neo (c_position_a (PulleyJoint.m_bodyB pj0)))
           (Vec2_sub (PulleyJoint.m_localAnchorB pj0)
                     (m_sweep_localCenter (PulleyJoint.m_bodyB pj0)))
   \<and> snd (PulleyJoint_solvePositionConstraints S
            (pj\<lparr>PulleyJoint.m_localAnchorA := xa, PulleyJoint.m_localAnchorB := xb,
                 PulleyJoint.m_localCenterA := ya, PulleyJoint.m_localCenterB := yb\<rparr>) step)
       = snd (PulleyJoint_solvePositionConstraints S pj step)"
  by (intro conjI PulleyJoint_solvePosition_result PulleyJoint_init_stores_arms
      PulleyJoint_solvePosition_flag_ignores_anchors)

text \<open>
  On the example pulley, with both bodies at the origin, the stored arm \<open>(1, 0)\<close> gives
  the axis \<open>uA = (1, 0)\<close> of length 1 and the error \<open>C = 4 - 1 - 0 = 3\<close>, outside the
  tolerance. The current arm \<open>rA = (0, 1)\<close> gives \<open>cross(rA, uA) = -1\<close> and the mass
  \<open>1 / (1 + 1 + 1)\<close>, so the impulse is \<open>-1\<close> and \<open>PA = (1, 0)\<close>: body A moves to
  \<open>(1, 0)\<close> and turns by \<open>cross(rA, PA) = -1\<close>. Body B is left where it is. With the
  axis taken from the current arm, or the mass from the stored one, the result would
  differ.
\<close>

theorem PulleyJoint_solvePosition_axes_from_stored_arms_witness:
  "PulleyJoint_solvePositionConstraints example_settings (example_pulley (Num 0, Num 0))
     example_step
   = ((example_pulley (Num 0, Num 0))
        \<lparr>PulleyJoint.m_bodyA :=
           (example_body (Num 0, Num 0))
             \<lparr>c_position_c := (Num 1, Num 0), c_position_a := Num (- 1)\<rparr>\<rparr>,
      False)"
  using PulleyJoint_solvePosition_axes_from_stored_arms
          [of example_settings "example_pulley (Num 0, Num 0)" example_step]
  by (simp add: example_pulley_def example_settings_def example_body_def Vec2_length_def
      Vec2_sub_def Vec2_add_def Vec2_set_def Vec2_scale_def Vec2_setZero_def Vec2_zero_def
      Vec2_crossVec2Vec2_def Vec2_mulNumVec2_def Vec2_addMul_def Rot_mulVec2_def Rot_neo_def
      Let_def)

section \<open>\<open>addVec2\<close>\<close>

lemma addVec2_distinct:
  "v \<noteq> out \<Longrightarrow>
   addVec2 h out v w = (h(out := (fst (h v) + fst (h w), fst (h v) + snd (h w))), out)"
  by (auto simp: addVec2_def Let_def fun_eq_iff)

lemma addVec2_in_place:
  "addVec2 h v v w = (h(v := (fst (h v) + fst (h w), fst (h v) + fst (h w) + snd (h w))), v)"
  by (auto simp: addVec2_def Let_def fun_eq_iff)

text \<open>
  C2. \<open>addVec2(out, v, w)\<close> sets \<open>out[0] = v[0] + w[0]\<close> and
  \<open>out[1] = v[0] + w[1]\<close>, not \<open>v[1] + w[1]\<close>, and returns \<open>out\<close>; no other array
  changes. The \<open>v[0]\<close> of the second assignment is read after the first one: it is the
  argument's first element unless \<open>out\<close> is the array \<open>v\<close> itself, where it is the sum
  just stored.
\<close>

theorem addVec2_writes_v0_plus_w1:
  "addVec2 h out v w =
     (h(out := (fst (h v) + fst (h w),
                (if v = out then fst (h v) + fst (h w) else fst (h v)) + snd (h w))),
      out)"
  by (auto simp: addVec2_def Let_def fun_eq_iff)

section \<open>\<open>AABB.rayCast\<close>\<close>

text \<open>An array has no property \<open>x\<close> or \<open>y\<close>: the read is \<open>undefined\<close>, as a number NaN.\<close>

lemma ToNumber_Vec2_prop_xy:
  "f = ''x'' \<or> f = ''y'' \<Longrightarrow> ToNumber (Vec2_prop v f) = NaN"
  by (auto simp: Vec2_prop_def)

text \<open>
  A pass of the loop body with \<open>tmin = -Infinity\<close> returns from neither branch, leaves
  \<open>tmin\<close> and \<open>normal\<close> as they are, and keeps \<open>tmax\<close> or makes it NaN.
\<close>

lemma rayCast_body_undefined_key:
  "f = ''x'' \<or> f = ''y'' \<Longrightarrow>
   rayCast_body EPSILON this p0 d absD f (NegInf, tmax, nrm)
     = Some (NegInf, if fst absD < EPSILON then tmax else NaN, nrm)"
  by (simp add: rayCast_body_def ToNumber_Vec2_prop_xy Let_def)

lemma rayCast_loop_result:
  "rayCast_loop EPSILON this p0 d absD (Some ''x'') (NegInf, PosInf, nrm)
     = Some (NegInf, if fst absD < EPSILON then PosInf else NaN, nrm)"
  by (simp add: rayCast_body_undefined_key)

text \<open>
  C3. \<open>AABB.rayCast(output, input)\<close> returns false for every box, every input and every
  \<open>EPSILON\<close>, and leaves \<open>output\<close> as it was: each slab computation reads properties that
  the arrays do not have, \<open>tmin\<close> stays \<open>-Infinity\<close>, and the final test \<open>tmin < 0.0\<close>
  returns false.
\<close>

theorem AABB_rayCast_never_hits:
  "AABB_rayCast EPSILON this output input = (False, output)"
  by (simp add: AABB_rayCast_def Let_def rayCast_loop_result del: rayCast_loop.simps)

section \<open>Warm starting\<close>

text \<open>
  With warm starting on, each \<open>initVelocityConstraints\<close> scales the accumulated impulse
  and then changes the velocities of the two bodies by the scaled impulse, along the arms
  and directions that it has just stored in the joint.
\<close>

lemma FrictionJoint_warm_start:
  assumes "warmStarting step"
  shows
  "(let fj' = FrictionJoint_initVelocityConstraints fj step;
        bodyA = FrictionJoint.m_bodyA fj;
        bodyB = FrictionJoint.m_bodyB fj;
        P = (dtRatio step * fst (FrictionJoint.m_linearImpulse fj),
             dtRatio step * snd (FrictionJoint.m_linearImpulse fj));
        L = FrictionJoint.m_angularImpulse fj * dtRatio step
    in FrictionJoint.m_linearImpulse fj' = P
       \<and> FrictionJoint.m_angularImpulse fj' = L
       \<and> c_velocity_v (FrictionJoint.m_bodyA fj')
           = Vec2_subMul (c_velocity_v bodyA) (m_invMass bodyA) P
       \<and> c_velocity_w (FrictionJoint.m_bodyA fj')
           = c_velocity_w bodyA
             - m_invI bodyA * (Vec2_crossVec2Vec2 (FrictionJoint.m_rA fj') P + L)
       \<and> c_velocity_v (FrictionJoint.m_bodyB fj')
           = Vec2_addMul (c_velocity_v bodyB) (m_invMass bodyB) P
       \<and> c_velocity_w (FrictionJoint.m_bodyB fj')
           = c_velocity_w bodyB
             + m_invI bodyB * (Vec2_crossVec2Vec2 (FrictionJoint.m_rB fj') P + L))"
  using assms
  by (simp add: FrictionJoint_initVelocityConstraints_def Let_def Vec2_scale_def Vec2_set_def
      Vec2_create_def)

lemma PulleyJoint_warm_start:
  assumes "warmStarting step"
  shows
  "(let pj' = PulleyJoint_initVelocityConstraints S pj step;
        bodyA = PulleyJoint.m_bodyA pj;
        bodyB = PulleyJoint.m_bodyB pj;
        I = PulleyJoint.m_impulse pj * dtRatio step;
        PA = Vec2_mulNumVec2 (- I) (the (PulleyJoint.m_uA pj'));
        PB = Vec2_mulNumVec2 ((- PulleyJoint.m_ratio pj) * I) (the (PulleyJoint.m_uB pj'))
    in PulleyJoint.m_impulse pj' = I
       \<and> c_velocity_v (PulleyJoint.m_bodyA pj')
           = Vec2_addMul (c_velocity_v bodyA) (m_invMass bodyA) PA
       \<and> c_velocity_w (PulleyJoint.m_bodyA pj')
           = c_velocity_w bodyA
             + m_invI bodyA * Vec2_crossVec2Vec2 (PulleyJoint.m_rA pj') PA
       \<and> c_velocity_v (PulleyJoint.m_bodyB pj')
           = Vec2_addMul (c_velocity_v bodyB) (m_invMass bodyB) PB
       \<and> c_velocity_w (PulleyJoint.m_bodyB pj')
           = c_velocity_w bodyB
             + m_invI bodyB * Vec2_crossVec2Vec2 (PulleyJoint.m_rB pj') PB)"
  using assms
  by (simp add: PulleyJoint_initVelocityConstraints_def Let_def)

lemma WeldJoint_warm_start:
  assumes "warmStarting step"
  shows
  "(let wj' = WeldJoint_initVelocityConstraints wj step;
        bodyA = WeldJoint.m_bodyA wj;
        bodyB = WeldJoint.m_bodyB wj;
        P = (fst (WeldJoint.m_impulse wj) * dtRatio step,
             fst (snd (WeldJoint.m_impulse wj)) * dtRatio step);
        L = snd (snd (WeldJoint.m_impulse wj'))
    in fst (WeldJoint.m_impulse wj') = fst P
       \<and> fst (snd (WeldJoint.m_impulse wj')) = snd P
       \<and> c_velocity_v (WeldJoint.m_bodyA wj')
           = Vec2_subMul (c_velocity_v bodyA) (m_invMass bodyA) P
       \<and> c_velocity_w (WeldJoint.m_bodyA wj')
           = c_velocity_w bodyA
             - m_invI bodyA * (Vec2_crossVec2Vec2 (WeldJoint.m_rA wj') P + L)
       \<and> c_velocity_v (WeldJoint.m_bodyB wj')
           = Vec2_addMul (c_velocity_v bodyB) (m_invMass bodyB) P
       \<and> c_velocity_w (WeldJoint.m_bodyB wj')
           = c_velocity_w bodyB
             + m_invI bodyB * (Vec2_crossVec2Vec2 (WeldJoint.m_rB wj') P + L))"
  using assms
  by (simp add: WeldJoint_initVelocityConstraints_def Let_def split_def Vec3_set_def
      Vec2_create_def)

text \<open>
  \<open>RopeJoint.initVelocityConstraints\<close> warm starts when the distance of the two anchors,
  which it computes from the positions of the bodies, is above \<open>linearSlop\<close>; otherwise
  it returns before the warm start with the impulse set to zero and the bodies as they
  were.
\<close>

lemma RopeJoint_warm_start:
  assumes "warmStarting step"
  shows
  "(let rj' = RopeJoint_initVelocityConstraints S rj step;
        bodyA = RopeJoint.m_bodyA rj;
        bodyB = RopeJoint.m_bodyB rj;
        rA = Rot_mulSub (Rot_neo (c_position_a bodyA)) (RopeJoint.m_localAnchorA rj)
               (m_sweep_localCenter bodyA);
        rB = Rot_mulSub (Rot_neo (c_position_a bodyB)) (RopeJoint.m_localAnchorB rj)
               (m_sweep_localCenter bodyB);
        distance = Vec2_length
                     (Vec2_subCombine
                        (Vec2_addCombine Vec2_zero (Num 1) (c_position_c bodyB) (Num 1) rB)
                        (Num 1) (c_position_c bodyA) (Num 1) rA);
        I = RopeJoint.m_impulse rj * dtRatio step;
        P = Vec2_mulNumVec2 I (the (RopeJoint.m_u rj'))
    in if distance > linearSlop S
       then RopeJoint.m_impulse rj' = I
         \<and> c_velocity_v (RopeJoint.m_bodyA rj')
             = Vec2_subMul (c_velocity_v bodyA) (m_invMass bodyA) P
         \<and> c_velocity_w (RopeJoint.m_bodyA rj')
             = c_velocity_w bodyA - m_invI bodyA * Vec2_crossVec2Vec2 (RopeJoint.m_rA rj') P
         \<and> c_velocity_v (RopeJoint.m_bodyB rj')
             = Vec2_addMul (c_velocity_v bodyB) (m_invMass bodyB) P
         \<and> c_velocity_w (RopeJoint.m_bodyB rj')
             = c_velocity_w bodyB + m_invI bodyB * Vec2_crossVec2Vec2 (RopeJoint.m_rB rj') P
       else RopeJoint.m_impulse rj' = Num 0
         \<and> RopeJoint.m_bodyA rj' = bodyA \<and> RopeJoint.m_bodyB rj' = bodyB)"
  using assms
  by (simp add: RopeJoint_initVelocityConstraints_def Let_def)

text \<open>
  C4, as stated, fails. With warm starting on and \<open>dtRatio = 2\<close>,
  \<open>WeldJoint.initVelocityConstraints\<close> leaves the angular component of the accumulated
  impulse \<open>(1, 1, 1)\<close> at 1, where the claim has \<open>1 * 2 = 2\<close>; and
  \<open>RopeJoint.initVelocityConstraints\<close> on a rope whose anchors coincide (their distance
  0 is not above \<open>linearSlop\<close>) sets the accumulated impulse \<open>-1\<close> to 0, where the claim
  has \<open>-1 * 2 = -2\<close>, and leaves the velocities of both bodies unchanged.
\<close>

theorem warm_start_scaling_counterexample:
  "warmStarting example_step
   \<and> snd (snd (WeldJoint.m_impulse (WeldJoint_initVelocityConstraints example_weld example_step)))
       = Num 1
   \<and> snd (snd (WeldJoint.m_impulse example_weld)) * dtRatio example_step = Num 2
   \<and> RopeJoint_initVelocityConstraints example_settings (example_rope (Num 0, Num 0)) example_step
       = (example_rope (Num 0, Num 0))
           \<lparr>RopeJoint.m_u := Some (Num 0, Num 0), RopeJoint.m_impulse := Num 0\<rparr>
   \<and> RopeJoint.m_impulse (example_rope (Num 0, Num 0)) * dtRatio example_step = Num (- 2)"
  by (simp add: WeldJoint_initVelocityConstraints_def RopeJoint_initVelocityConstraints_def
      Let_def split_def example_weld_def example_rope_def example_step_def example_body_def
      example_settings_def Vec2_scale_def Vec2_set_def Vec2_create_def Vec2_subMul_def
      Vec2_addMul_def Vec2_crossVec2Vec2_def Rot_mulVec2_def Rot_mulSub_def Rot_neo_def
      Vec2_sub_def Vec2_add_def Vec2_length_def Vec2_mulNumVec2_def Vec2_setZero_def
      Vec2_zero_def Vec2_addCombine_def Vec2_subCombine_def Vec3_set_def)

text \<open>
  C4, amended. When \<open>step.warmStarting\<close> is true, \<open>initVelocityConstraints\<close> multiplies
  by \<open>step.dtRatio\<close>, before it applies the warm-start impulses: both components of the
  linear impulse and the angular impulse of a \<open>FrictionJoint\<close>; the impulse of a
  \<open>PulleyJoint\<close>; the two linear components of a \<open>WeldJoint\<close>'s impulse; and the
  impulse of a \<open>RopeJoint\<close> whose anchors are farther apart than \<open>linearSlop\<close>. The
  impulses applied to the velocities of the two bodies are computed from the scaled
  values (for the \<open>WeldJoint\<close>, from the two scaled linear components and the angular
  component as stored). A \<open>RopeJoint\<close> whose anchors are not farther apart than
  \<open>linearSlop\<close> gets the impulse 0 and no warm start: the velocities of its bodies are
  unchanged.
\<close>

theorem warm_start_scaling:
  assumes "warmStarting step"
  shows
  "(let fj' = FrictionJoint_initVelocityConstraints fj step;
        bodyA = FrictionJoint.m_bodyA fj;
        bodyB = FrictionJoint.m_bodyB fj;
        P = (dtRatio step * fst (FrictionJoint.m_linearImpulse fj),
             dtRatio step * snd (FrictionJoint.m_linearImpulse fj));
        L = FrictionJoint.m_angularImpulse fj * dtRatio step
    in FrictionJoint.m_linearImpulse fj' = P
       \<and> FrictionJoint.m_angularImpulse fj' = L
       \<and> c_velocity_v (FrictionJoint.m_bodyA fj')
           = Vec2_subMul (c_velocity_v bodyA) (m_invMass bodyA) P
       \<and> c_velocity_w (FrictionJoint.m_bodyA fj')
           = c_velocity_w bodyA
             - m_invI bodyA * (Vec2_crossVec2Vec2 (FrictionJoint.m_rA fj') P + L)
       \<and> c_velocity_v (FrictionJoint.m_bodyB fj')
           = Vec2_addMul (c_velocity_v bodyB) (m_invMass bodyB) P
       \<and> c_velocity_w (FrictionJoint.m_bodyB fj')
           = c_velocity_w bodyB
             + m_invI bodyB * (Vec2_crossVec2Vec2 (FrictionJoint.m_rB fj') P + L))
   \<and> (let pj' = PulleyJoint_initVelocityConstraints S pj step;
        bodyA = PulleyJoint.m_bodyA pj;
        bodyB = PulleyJoint.m_bodyB pj;
        I = PulleyJoint.m_impulse pj * dtRatio step;
        PA = Vec2_mulNumVec2 (- I) (the (PulleyJoint.m_uA pj'));
        PB = Vec2_mulNumVec2 ((- PulleyJoint.m_ratio pj) * I) (the (PulleyJoint.m_uB pj'))
    in PulleyJoint.m_impulse pj' = I
       \<and> c_velocity_v (PulleyJoint.m_bodyA pj')
           = Vec2_addMul (c_velocity_v bodyA) (m_invMass bodyA) PA
       \<and> c_velocity_w (PulleyJoint.m_bodyA pj')
           = c_velocity_w bodyA
             + m_invI bodyA * Vec2_crossVec2Vec2 (PulleyJoint.m_rA pj') PA
       \<and> c_velocity_v (PulleyJoint.m_bodyB pj')
           = Vec2_addMul (c_velocity_v bodyB) (m_invMass bodyB) PB
       \<and> c_velocity_w (PulleyJoint.m_bodyB pj')
           = c_velocity_w bodyB
             + m_invI bodyB * Vec2_crossVec2Vec2 (PulleyJoint.m_rB pj') PB)
   \<and> (let wj' = WeldJoint_initVelocityConstraints wj step;
        bodyA = WeldJoint.m_bodyA wj;
        bodyB = WeldJoint.m_bodyB wj;
        P = (fst (WeldJoint.m_impulse wj) * dtRatio step,
             fst (snd (WeldJoint.m_impulse wj)) * dtRatio step);
        L = snd (snd (WeldJoint.m_impulse wj'))
    in fst (WeldJoint.m_impulse wj') = fst P
       \<and> fst (snd (WeldJoint.m_impulse wj')) = snd P
       \<and> c_velocity_v (WeldJoint.m_bodyA wj')
           = Vec2_subMul (c_velocity_v bodyA) (m_invMass bodyA) P
       \<and> c_velocity_w (WeldJoint.m_bodyA wj')
           = c_velocity_w bodyA
             - m_invI bodyA * (Vec2_crossVec2Vec2 (WeldJoint.m_rA wj') P + L)
       \<and> c_velocity_v (WeldJoint.m_bodyB wj')
           = Vec2_addMul (c_velocity_v bodyB) (m_invMass bodyB) P
       \<and> c_velocity_w (WeldJoint.m_bodyB wj')
           = c_velocity_w bodyB
             + m_invI bodyB * (Vec2_crossVec2Vec2 (WeldJoint.m_rB wj') P + L))
   \<and> (let rj' = RopeJoint_initVelocityConstraints S rj step;
        bodyA = RopeJoint.m_bodyA rj;
        bodyB = RopeJoint.m_bodyB rj;
        rA = Rot_mulSub (Rot_neo (c_position_a bodyA)) (RopeJoint.m_localAnchorA rj)
               (m_sweep_localCenter bodyA);
        rB = Rot_mulSub (Rot_neo (c_position_a bodyB)) (RopeJoint.m_localAnchorB rj)
               (m_sweep_localCenter bodyB);
        distance = Vec2_length
                     (Vec2_subCombine
                        (Vec2_addCombine Vec2_zero (Num 1) (c_position_c bodyB) (Num 1) rB)
                        (Num 1) (c_position_c bodyA) (Num 1) rA);
        I = RopeJoint.m_impulse rj * dtRatio step;
        P = Vec2_mulNumVec2 I (the (RopeJoint.m_u rj'))
    in if distance > linearSlop S
       then RopeJoint.m_impulse rj' = I
         \<and> c_velocity_v (RopeJoint.m_bodyA rj')
             = Vec2_subMul (c_velocity_v bodyA) (m_invMass bodyA) P
         \<and> c_velocity_w (RopeJoint.m_bodyA rj')
             = c_velocity_w bodyA - m_invI bodyA * Vec2_crossVec2Vec2 (RopeJoint.m_rA rj') P
         \<and> c_velocity_v (RopeJoint.m_bodyB rj')
             = Vec2_addMul (c_velocity_v bodyB) (m_invMass bodyB) P
         \<and> c_velocity_w (RopeJoint.m_bodyB rj')
             = c_velocity_w bodyB + m_invI bodyB * Vec2_crossVec2Vec2 (RopeJoint.m_rB rj') P
       else RopeJoint.m_impulse rj' = Num 0
         \<and> RopeJoint.m_bodyA rj' = bodyA \<and> RopeJoint.m_bodyB rj' = bodyB)"
  by (intro conjI FrictionJoint_warm_start [OF assms] PulleyJoint_warm_start [OF assms]
      WeldJoint_warm_start [OF assms] RopeJoint_warm_start [OF assms])

text \<open>
  On the examples, with \<open>dtRatio = 2\<close>. The friction joint's impulses \<open>(1, 3)\<close> and 5
  become \<open>(2, 6)\<close> and 10; body A gets the velocities \<open>(-2, -6)\<close> and \<open>-10\<close>, body B
  \<open>(2, 6)\<close> and 10. The impulse 3 of the pulley with body A at \<open>(4, 2)\<close>, whose axis is
  \<open>(4/5, 3/5)\<close>, becomes 6; body A gets the velocity \<open>-6 * (4/5, 3/5)\<close> and, its arm
  being \<open>(0, 1)\<close>, the angular velocity \<open>24/5\<close>. The linear components of the weld
  joint's impulse become \<open>(2, 2)\<close>, and the bodies get the velocities \<open>(-2, -2)\<close> and
  \<open>(2, 2)\<close>. The impulse \<open>-1\<close> of the rope of length 2 becomes \<open>-2\<close>, and the bodies
  get the velocities \<open>(2, 0)\<close> and \<open>(-2, 0)\<close>.
\<close>

theorem warm_start_scaling_witness:
  "warmStarting example_step
   \<and> FrictionJoint.m_linearImpulse
         (FrictionJoint_initVelocityConstraints example_friction example_step)
       = (Num 2, Num 6)
   \<and> FrictionJoint.m_angularImpulse
         (FrictionJoint_initVelocityConstraints example_friction example_step)
       = Num 10
   \<and> c_velocity_v (FrictionJoint.m_bodyA
         (FrictionJoint_initVelocityConstraints example_friction example_step))
       = (Num (- 2), Num (- 6))
   \<and> c_velocity_w (FrictionJoint.m_bodyA
         (FrictionJoint_initVelocityConstraints example_friction example_step))
       = Num (- 10)
   \<and> c_velocity_v (FrictionJoint.m_bodyB
         (FrictionJoint_initVelocityConstraints example_friction example_step))
       = (Num 2, Num 6)
   \<and> c_velocity_w (FrictionJoint.m_bodyB
         (FrictionJoint_initVelocityConstraints example_friction example_step))
       = Num 10
   \<and> PulleyJoint.m_impulse
         (PulleyJoint_initVelocityConstraints example_settings (example_pulley (Num 4, Num 2))
            example_step)
       = Num 6
   \<and> c_velocity_v (PulleyJoint.m_bodyA
         (PulleyJoint_initVelocityConstraints example_settings (example_pulley (Num 4, Num 2))
            example_step))
       = (Num (- (24 / 5)), Num (- (18 / 5)))
   \<and> c_velocity_w (PulleyJoint.m_bodyA
         (PulleyJoint_initVelocityConstraints example_settings (example_pulley (Num 4, Num 2))
            example_step))
       = Num (24 / 5)
   \<and> fst (WeldJoint.m_impulse (WeldJoint_initVelocityConstraints example_weld example_step))
       = Num 2
   \<and> fst (snd (WeldJoint.m_impulse (WeldJoint_initVelocityConstraints example_weld example_step)))
       = Num 2
   \<and> c_velocity_v (WeldJoint.m_bodyA (WeldJoint_initVelocityConstraints example_weld example_step))
       = (Num (- 2), Num (- 2))
   \<and> c_velocity_v (WeldJoint.m_bodyB (WeldJoint_initVelocityConstraints example_weld example_step))
       = (Num 2, Num 2)
   \<and> RopeJoint.m_impulse
         (RopeJoint_initVelocityConstraints example_settings (example_rope (Num 2, Num 0))
            example_step)
       = Num (- 2)
   \<and> c_velocity_v (RopeJoint.m_bodyA
         (RopeJoint_initVelocityConstraints example_settings (example_rope (Num 2, Num 0))
            example_step))
       = (Num 2, Num 0)
   \<and> c_velocity_v (RopeJoint.m_bodyB
         (RopeJoint_initVelocityConstraints example_settings (example_rope (Num 2, Num 0))
            example_step))
       = (Num (- 2), Num 0)"
proof -
  have ws: "warmStarting example_step"
    by (simp add: example_step_def)
  show ?thesis
    using warm_start_scaling [OF ws, of example_friction example_settings
        "example_pulley (Num 4, Num 2)" example_weld "example_rope (Num 2, Num 0)"]
    by (simp add: FrictionJoint_initVelocityConstraints_def
        PulleyJoint_initVelocityConstraints_def WeldJoint_initVelocityConstraints_def
        RopeJoint_initVelocityConstraints_def Let_def split_def
        example_friction_def example_pulley_def example_weld_def example_rope_def
        example_step_def example_body_def example_settings_def
        Vec2_scale_def Vec2_set_def Vec2_create_def Vec2_subMul_def Vec2_addMul_def
        Vec2_crossVec2Vec2_def Rot_mulVec2_def Rot_mulSub_def Rot_neo_def Vec2_sub_def
        Vec2_add_def Vec2_length_def Vec2_mulNumVec2_def Vec2_setZero_def Vec2_zero_def
        Vec2_addCombine_def Vec2_subCombine_def Vec3_set_def)
qed

section \<open>Reaction force and torque\<close>



section \<open>Singular matrices\<close>

text \<open>
  A determinant that is the number zero forces the entries it is computed from to be
  reals; \<open>det\<close> stays zero under the guard \<open>det !== 0.0\<close>, and its product with a real
  is zero. Its product with an infinity is NaN.
\<close>

lemma Mat22_singular:
  assumes "fst (Mat22.ex m) * snd (Mat22.ey m) - fst (Mat22.ey m) * snd (Mat22.ex m) = Num 0"
  shows "Mat22_getInverse m = \<lparr>Mat22.ex = (Num 0, Num 0), Mat22.ey = (Num 0, Num 0)\<rparr>"
    and "snd (Mat22.ey m) * x - fst (Mat22.ey m) * y = Num ta \<Longrightarrow>
         fst (Mat22.ex m) * y - snd (Mat22.ex m) * x = Num tb \<Longrightarrow>
         Mat22_solve m (x, y) = (Num 0, Num 0)"
proof -
  from assms obtain a b d e where
    fin: "fst (Mat22.ex m) = Num a" "snd (Mat22.ey m) = Num d"
    "fst (Mat22.ey m) = Num b" "snd (Mat22.ex m) = Num e"
    by (elim jsnum_diff_NumE jsnum_mult_NumE) auto
  with assms show
    "Mat22_getInverse m = \<lparr>Mat22.ex = (Num 0, Num 0), Mat22.ey = (Num 0, Num 0)\<rparr>"
    by (simp add: Mat22_getInverse_def Mat22_new_def Vec2_zero_def Let_def)
  show "Mat22_solve m (x, y) = (Num 0, Num 0)"
    if "snd (Mat22.ey m) * x - fst (Mat22.ey m) * y = Num ta"
      "fst (Mat22.ex m) * y - snd (Mat22.ex m) * x = Num tb"
    using that assms by (simp add: Mat22_solve_def Vec2_zero_def Let_def)
qed

lemma Mat33_singular22:
  assumes "fst (Mat33.ex m) * fst (snd (Mat33.ey m))
           - fst (Mat33.ey m) * fst (snd (Mat33.ex m)) = Num 0"
  shows "Mat33_getInverse22 m M =
           M\<lparr>Mat33.ex := (Num 0, Num 0, Num 0), Mat33.ey := (Num 0, Num 0, Num 0),
             Mat33.ez := (Num 0, Num 0, Num 0)\<rparr>"
    and "fst (snd (Mat33.ey m)) * x - fst (Mat33.ey m) * y = Num ta \<Longrightarrow>
         fst (Mat33.ex m) * y - fst (snd (Mat33.ex m)) * x = Num tb \<Longrightarrow>
         Mat33_solve22 m (x, y) = (Num 0, Num 0)"
proof -
  from assms obtain a b d e where
    fin: "fst (Mat33.ex m) = Num a" "fst (snd (Mat33.ey m)) = Num d"
    "fst (Mat33.ey m) = Num b" "fst (snd (Mat33.ex m)) = Num e"
    by (elim jsnum_diff_NumE jsnum_mult_NumE) auto
  with assms show
    "Mat33_getInverse22 m M =
       M\<lparr>Mat33.ex := (Num 0, Num 0, Num 0), Mat33.ey := (Num 0, Num 0, Num 0),
         Mat33.ez := (Num 0, Num 0, Num 0)\<rparr>"
    by (simp add: Mat33_getInverse22_def Let_def)
  show "Mat33_solve22 m (x, y) = (Num 0, Num 0)"
    if "fst (snd (Mat33.ey m)) * x - fst (Mat33.ey m) * y = Num ta"
      "fst (Mat33.ex m) * y - fst (snd (Mat33.ex m)) * x = Num tb"
    using that assms by (simp add: Mat33_solve22_def Vec2_zero_def Let_def)
qed

text \<open>
  The determinant and the three sums that \<open>solve33\<close> multiplies with it are, operation
  for operation, \<open>Vec3.dot\<close> of a \<open>Vec3.cross\<close>, as its comments say.
\<close>

lemma Mat33_singular33:
  assumes "Vec3_dot (Mat33.ex m) (Vec3_cross (Mat33.ey m) (Mat33.ez m)) = Num 0"
    and "Vec3_dot v (Vec3_cross (Mat33.ey m) (Mat33.ez m)) = Num ta"
    and "Vec3_dot (Mat33.ex m) (Vec3_cross v (Mat33.ez m)) = Num tb"
    and "Vec3_dot (Mat33.ex m) (Vec3_cross (Mat33.ey m) v) = Num tc"
  shows "Mat33_solve33 m v = (Num 0, Num 0, Num 0)"
proof -
  obtain a0 a1 a2 where ex: "Mat33.ex m = (a0, a1, a2)"
    by (cases "Mat33.ex m") auto
  obtain b0 b1 b2 where ey: "Mat33.ey m = (b0, b1, b2)"
    by (cases "Mat33.ey m") auto
  obtain d0 d1 d2 where ez: "Mat33.ez m = (d0, d1, d2)"
    by (cases "Mat33.ez m") auto
  obtain v0 v1 v2 where v: "v = (v0, v1, v2)"
    by (cases v) auto
  from assms show ?thesis
    by (simp add: Mat33_solve33_def ex ey ez v Let_def Vec3_dot_def Vec3_cross_def Vec3_set_def)
qed

text \<open>
  C6, as stated, fails in two ways. At precision \<open>binary64\<close> the matrix with the columns
  \<open>(2, 1)\<close> and \<open>(2, 1)\<close> has the determinant \<open>2 * 1 - 2 * 1 = 0\<close>, and for the
  finite right-hand side \<open>(0, -2^1023)\<close> the product \<open>2 * -2^1023\<close> overflows to
  \<open>-Infinity\<close>, so \<open>Mat22.solve\<close> returns \<open>0 * Infinity\<close> and \<open>0 * -Infinity\<close>, which is NaN, in both
  components. And the matrix with the columns \<open>(1, 0, 0)\<close>, \<open>(0, 1, 0)\<close>, \<open>(0, 0, 0)\<close>
  has the determinant zero, while \<open>Mat33.solve22\<close>, which looks at the upper-left
  2-by-2 block only, returns the right-hand side \<open>(1, 1)\<close>.
\<close>

theorem singular_matrix_counterexample:
  "fst (Mat22.ex \<lparr>Mat22.ex = (Num 2, Num 1), Mat22.ey = (Num 2, Num 1)\<rparr>)
     * snd (Mat22.ey \<lparr>Mat22.ex = (Num 2, Num 1), Mat22.ey = (Num 2, Num 1)\<rparr>)
   - fst (Mat22.ey \<lparr>Mat22.ex = (Num 2, Num 1), Mat22.ey = (Num 2, Num 1)\<rparr>)
     * snd (Mat22.ex \<lparr>Mat22.ex = (Num 2, Num 1), Mat22.ey = (Num 2, Num 1)\<rparr>)
   = (Num 0 :: binary64 jsnum)
   \<and> Mat22_solve \<lparr>Mat22.ex = (Num 2, Num 1), Mat22.ey = (Num 2, Num 1)\<rparr>
        (Num 0, Num (- (2 ^ 1023)))
     = (NaN :: binary64 jsnum, NaN)
   \<and> Vec3_dot (Num 1, Num 0, Num 0) (Vec3_cross (Num 0, Num 1, Num 0) (Num 0, Num 0, Num 0))
     = (Num 0 :: binary64 jsnum)
   \<and> Mat33_solve22
        \<lparr>Mat33.ex = (Num 1, Num 0, Num 0), Mat33.ey = (Num 0, Num 1, Num 0),
         Mat33.ez = (Num 0, Num 0, Num 0)\<rparr> (Num 1, Num 1)
     = (Num 1 :: binary64 jsnum, Num 1)"
  using binary64_overflow
  by (simp add: Mat22_solve_def Mat33_solve22_def Vec2_zero_def Let_def binary64_one
      binary64_two js_neq_def js_eq_def Vec3_dot_def Vec3_cross_def Vec3_set_def Vec3_zero_def
      Vec3_create_def minus_jsnum_def)

text \<open>
  C6, amended. When the determinant that the function computes is zero, of the matrix for
  \<open>Mat22\<close> and \<open>solve33\<close> and of the upper-left 2-by-2 block for \<open>solve22\<close> and
  \<open>getInverse22\<close>, then \<open>Mat22.getInverse\<close> and \<open>Mat33.getInverse22\<close> give the zero
  matrix, and \<open>Mat22.solve\<close>, \<open>Mat33.solve22\<close> and \<open>Mat33.solve33\<close> return the zero
  vector for every right-hand side for which the sums they multiply with the determinant
  are finite (which makes the right-hand side finite): the reciprocal is taken only under
  \<open>det !== 0.0\<close>, so \<open>det\<close> stays zero and nothing is divided by it. A zero is a zero of
  either sign.
\<close>

theorem singular_matrix_gives_zero:
  "(fst (Mat22.ex m) * snd (Mat22.ey m) - fst (Mat22.ey m) * snd (Mat22.ex m) = Num 0 \<longrightarrow>
      Mat22_getInverse m = \<lparr>Mat22.ex = (Num 0, Num 0), Mat22.ey = (Num 0, Num 0)\<rparr>
      \<and> (snd (Mat22.ey m) * x - fst (Mat22.ey m) * y = Num ta
         \<and> fst (Mat22.ex m) * y - snd (Mat22.ex m) * x = Num tb \<longrightarrow>
         Mat22_solve m (x, y) = (Num 0, Num 0)))
   \<and> (fst (Mat33.ex n) * fst (snd (Mat33.ey n))
       - fst (Mat33.ey n) * fst (snd (Mat33.ex n)) = Num 0 \<longrightarrow>
      Mat33_getInverse22 n M =
          M\<lparr>Mat33.ex := (Num 0, Num 0, Num 0), Mat33.ey := (Num 0, Num 0, Num 0),
            Mat33.ez := (Num 0, Num 0, Num 0)\<rparr>
      \<and> (fst (snd (Mat33.ey n)) * x - fst (Mat33.ey n) * y = Num tc
         \<and> fst (Mat33.ex n) * y - fst (snd (Mat33.ex n)) * x = Num td \<longrightarrow>
         Mat33_solve22 n (x, y) = (Num 0, Num 0)))
   \<and> (Vec3_dot (Mat33.ex n) (Vec3_cross (Mat33.ey n) (Mat33.ez n)) = Num 0
       \<and> Vec3_dot v (Vec3_cross (Mat33.ey n) (Mat33.ez n)) = Num te
       \<and> Vec3_dot (Mat33.ex n) (Vec3_cross v (Mat33.ez n)) = Num tf
       \<and> Vec3_dot (Mat33.ex n) (Vec3_cross (Mat33.ey n) v) = Num tg \<longrightarrow>
      Mat33_solve33 n v = (Num 0, Num 0, Num 0))"
  using Mat22_singular(1) [of m] Mat22_singular(2) [of m x y ta tb]
    Mat33_singular22(1) [of n M] Mat33_singular22(2) [of n x y tc td]
    Mat33_singular33 [of n v te tf tg]
  by blast

text \<open>
  The matrices with the columns \<open>(1, 2)\<close>, \<open>(2, 4)\<close> and \<open>(1, 2, 3)\<close>, \<open>(2, 4, 6)\<close>,
  \<open>(0, 0, 1)\<close>, and the right-hand sides \<open>(3, 5)\<close> and \<open>(3, 5, 7)\<close>.
\<close>

theorem singular_matrix_gives_zero_witness:
  "Mat22_solve \<lparr>Mat22.ex = (Num 1, Num 2), Mat22.ey = (Num 2, Num 4)\<rparr> (Num 3, Num 5)
     = (Num 0 :: exact jsnum, Num 0)
   \<and> Mat22_getInverse \<lparr>Mat22.ex = (Num 1, Num 2), Mat22.ey = (Num 2, Num 4)\<rparr>
     = \<lparr>Mat22.ex = (Num 0 :: exact jsnum, Num 0), Mat22.ey = (Num 0, Num 0)\<rparr>
   \<and> Mat33_solve22
       \<lparr>Mat33.ex = (Num 1, Num 2, Num 3), Mat33.ey = (Num 2, Num 4, Num 6),
        Mat33.ez = (Num 0, Num 0, Num 1)\<rparr> (Num 3, Num 5)
     = (Num 0 :: exact jsnum, Num 0)
   \<and> Mat33_getInverse22
       \<lparr>Mat33.ex = (Num 1, Num 2, Num 3), Mat33.ey = (Num 2, Num 4, Num 6),
        Mat33.ez = (Num 0, Num 0, Num 1)\<rparr> Mat33_new
     = \<lparr>Mat33.ex = (Num 0 :: exact jsnum, Num 0, Num 0), Mat33.ey = (Num 0, Num 0, Num 0),
        Mat33.ez = (Num 0, Num 0, Num 0)\<rparr>
   \<and> Mat33_solve33
       \<lparr>Mat33.ex = (Num 1, Num 2, Num 3), Mat33.ey = (Num 2, Num 4, Num 6),
        Mat33.ez = (Num 0, Num 0, Num 1)\<rparr> (Num 3, Num 5, Num 7)
     = (Num 0 :: exact jsnum, Num 0, Num 0)"
  using singular_matrix_gives_zero
    [where m = "\<lparr>Mat22.ex = (Num 1 :: exact jsnum, Num 2), Mat22.ey = (Num 2, Num 4)\<rparr>"
       and x = "Num 3" and y = "Num 5" and ta = 2 and tb = "- 1"
       and n = "\<lparr>Mat33.ex = (Num 1, Num 2, Num 3), Mat33.ey = (Num 2, Num 4, Num 6),
                 Mat33.ez = (Num 0, Num 0, Num 1)\<rparr>"
       and M = Mat33_new and tc = 2 and td = "- 1"
       and v = "(Num 3, Num 5, Num 7)" and te = 2 and tf = "- 1" and tg = 0]
  by (simp add: Vec3_dot_def Vec3_cross_def Vec3_set_def Vec3_zero_def Vec3_create_def
      Mat33_new_def)

section \<open>Validity of a bounding box\<close>

text \<open>
  The third conjunct of \<open>AABB.isValid\<close> is a sum of two squares compared with zero; it
  holds whenever the bounds are finite, also where the sum is \<open>Infinity\<close>, so validity
  is finiteness of the four bounds.
\<close>

lemma Vec2_lengthSquared_ge0:
  "fst v \<noteq> NaN \<Longrightarrow> snd v \<noteq> NaN \<Longrightarrow> Num 0 \<le> Vec2_lengthSquared v"
  by (simp add: Vec2_lengthSquared_def jsnum_add_ge0 jsnum_square_ge0)

lemma Vec2_isValid_iff: "Vec2_isValid (Some v) = (\<exists>x y. v = (Num x, Num y))"
proof (cases v)
  case (Pair a b)
  then show ?thesis
    by (cases a; cases b) (simp_all add: Vec2_isValid_def Vec2_prop_def)
qed

lemma AABB_isValid_iff_finite:
  "AABB_isValid (Some b) =
     (\<exists>lx ly ux uy. lowerBound b = (Num lx, Num ly) \<and> upperBound b = (Num ux, Num uy))"
proof
  assume "AABB_isValid (Some b)"
  then have "Vec2_isValid (Some (lowerBound b))" "Vec2_isValid (Some (upperBound b))"
    by (simp_all add: AABB_isValid_def)
  then show "\<exists>lx ly ux uy. lowerBound b = (Num lx, Num ly) \<and> upperBound b = (Num ux, Num uy)"
    by (auto simp: Vec2_isValid_iff)
next
  assume "\<exists>lx ly ux uy. lowerBound b = (Num lx, Num ly) \<and> upperBound b = (Num ux, Num uy)"
  then obtain lx ly ux uy where
    b: "lowerBound b = (Num lx, Num ly)" "upperBound b = (Num ux, Num uy)"
    by blast
  have "Num 0 \<le> Vec2_lengthSquared (Vec2_sub (upperBound b) (lowerBound b))"
    by (rule Vec2_lengthSquared_ge0) (simp_all add: b Vec2_sub_def Vec2_set_def)
  then show "AABB_isValid (Some b)"
    by (simp add: AABB_isValid_def Vec2_isValid_iff b)
qed

text \<open>
  C7 fails on the code: \<open>AABB.isValid\<close> returns true for the box with
  \<open>lowerBound = [1, 1]\<close> and \<open>upperBound = [0, 0]\<close>, whose lower bound is above its
  upper bound in both components.
\<close>

theorem AABB_isValid_accepts_unsorted_bounds:
  "AABB_isValid (Some \<lparr>lowerBound = (Num 1, Num 1), upperBound = (Num 0, Num 0)\<rparr>)"
  by (simp add: AABB_isValid_iff_finite)

section \<open>Transforms\<close>

text \<open>
  C8. Over exact real arithmetic, for a transform with real position and a unit rotation
  (\<open>s\<^sup>2 + c\<^sup>2 = 1\<close>) and a real vector \<open>v\<close>, \<open>detransformVec2\<close> applied with the same
  transform to the result of \<open>transformVec2\<close> returns \<open>v\<close>, whatever the two output
  arrays held.
\<close>

theorem detransformVec2_transformVec2:
  assumes "xf = \<lparr>p = (Num px, Num py), q = \<lparr>s = Num sn, c = Num cs\<rparr>\<rparr>"
    and "sn * sn + cs * cs = 1"
    and "v = (Num x, Num y)"
  shows "detransformVec2 out2 xf (transformVec2 out xf v) = (v :: exact Vec2Value)"
proof -
  have "cs * (cs * x - sn * y) + sn * (sn * x + cs * y) = (sn * sn + cs * cs) * x"
    by (simp add: algebra_simps)
  moreover have "cs * (sn * x + cs * y) - sn * (cs * x - sn * y) = (sn * sn + cs * cs) * y"
    by (simp add: algebra_simps)
  ultimately show ?thesis
    using assms by (simp add: detransformVec2_def transformVec2_def Let_def)
qed

theorem detransformVec2_transformVec2_witness:
  "detransformVec2 (Num 0, Num 0)
     \<lparr>p = (Num 1, Num 2), q = \<lparr>s = Num (3 / 5), c = Num (4 / 5)\<rparr>\<rparr>
     (transformVec2 (Num 0, Num 0)
        \<lparr>p = (Num 1, Num 2), q = \<lparr>s = Num (3 / 5), c = Num (4 / 5)\<rparr>\<rparr> (Num 3, Num 4))
   = (Num 3 :: exact jsnum, Num 4)"
  using detransformVec2_transformVec2
    [of "\<lparr>p = (Num 1, Num 2), q = \<lparr>s = Num (3 / 5), c = Num (4 / 5)\<rparr>\<rparr>" 1 2 "3 / 5" "4 / 5"
        "(Num 3, Num 4)" 3 4 "(Num 0, Num 0)" "(Num 0, Num 0)"]
  by simp

section \<open>Perimeter of a combined box\<close>

text \<open>
  C9, as stated, fails at precision \<open>binary64\<close>. For \<open>a = b\<close> with the bounds
  \<open>[0, 2^60]\<close> and \<open>[1, 2^60]\<close>, \<open>combinedPerimeter\<close> computes, from the left,
  \<open>1 - 0 = 1\<close>, then \<open>1 + 2^60\<close>, which is rounded to \<open>2^60\<close>, then
  \<open>2^60 - 2^60 = 0\<close>, and returns 0; the formula of the claim, which adds the two
  extents, gives \<open>2 * (1 + 0) = 2\<close>.
\<close>

theorem combinedPerimeter_counterexample:
  "AABB_combinedPerimeter
     \<lparr>lowerBound = (Num 0, Num (2 ^ 60)), upperBound = (Num 1, Num (2 ^ 60))\<rparr>
     \<lparr>lowerBound = (Num 0, Num (2 ^ 60)), upperBound = (Num 1, Num (2 ^ 60))\<rparr>
   = (Num 0 :: binary64 jsnum)
   \<and> Num 2 * ((math_max (Num 1) (Num 1) - math_min (Num 0) (Num 0))
              + (math_max (Num (2 ^ 60)) (Num (2 ^ 60)) - math_min (Num (2 ^ 60)) (Num (2 ^ 60))))
   = (Num 2 :: binary64 jsnum)"
  using binary64_absorb
  by (simp add: AABB_combinedPerimeter_def Let_def math_max_def math_min_def binary64_one
      binary64_two add.commute)

text \<open>Over exact reals the sum can be bracketed as in the claim.\<close>

lemma jsnum_add_assoc_exact: "((x::exact jsnum) + y) + z = x + (y + z)"
  by (cases x; cases y; cases z) simp_all

lemma combinedPerimeter_exact:
  "AABB_combinedPerimeter a b =
     Num 2 * ((math_max (fst (upperBound a)) (fst (upperBound b))
               - math_min (fst (lowerBound a)) (fst (lowerBound b)))
              + (math_max (snd (upperBound a)) (snd (upperBound b))
                 - math_min (snd (lowerBound a)) (snd (lowerBound (b :: exact AABBValue)))))"
  by (simp add: AABB_combinedPerimeter_def Let_def minus_jsnum_def jsnum_add_assoc_exact)

text \<open>
  C9, amended. \<open>AABB.combinedPerimeter(a, b)\<close> is the perimeter \<open>getPerimeter\<close> returns
  for the box that \<open>combine(a, b)\<close> stores (in any target box), namely
  \<open>2 * (ux - lx + uy - ly)\<close> evaluated from the left, with \<open>lx\<close>, \<open>ly\<close> the
  componentwise minimum of the lower bounds and \<open>ux\<close>, \<open>uy\<close> the componentwise maximum
  of the upper bounds; over exact reals this is \<open>2 * ((ux - lx) + (uy - ly))\<close>.
\<close>

theorem combinedPerimeter_is_perimeter_of_combine:
  "AABB_combinedPerimeter a b = AABB_getPerimeter (AABB_combine this a (Some b))
   \<and> AABB_combinedPerimeter a b =
       Num 2 * (math_max (fst (upperBound a)) (fst (upperBound b))
                - math_min (fst (lowerBound a)) (fst (lowerBound b))
                + math_max (snd (upperBound a)) (snd (upperBound b))
                - math_min (snd (lowerBound a)) (snd (lowerBound b)))
   \<and> AABB_combinedPerimeter a0 b0 =
       Num 2 * ((math_max (fst (upperBound a0)) (fst (upperBound b0))
                 - math_min (fst (lowerBound a0)) (fst (lowerBound b0)))
                + (math_max (snd (upperBound a0)) (snd (upperBound b0))
                   - math_min (snd (lowerBound a0)) (snd (lowerBound (b0 :: exact AABBValue)))))"
  using combinedPerimeter_exact [of a0 b0]
  by (simp add: AABB_combinedPerimeter_def AABB_getPerimeter_def AABB_combine_def Let_def
      Vec2_set_def math_max_commute)

section \<open>The validity assertions\<close>

text \<open>
  \<open>Vec3.isValid\<close> looks for the properties \<open>x\<close>, \<open>y\<close>, \<open>z\<close>, which an array does not
  have: no \<open>Vec3Value\<close> and no \<open>Mat33\<close> is valid. An object whose three columns have
  these properties is.
\<close>

lemma Vec3_isValid_array: "\<not> Vec3_isValid (Some (Vec3_prop v))"
  by (simp add: Vec3_isValid_def Vec3_prop_def)

lemma Mat33_isValid_Mat33: "\<not> Mat33_isValid (Some (Mat33_object m))"
  by (simp add: Mat33_isValid_def Mat33_object_def Vec3_isValid_array)

lemma Mat33_isValid_example:
  "Mat33_isValid (Some \<lparr>Mat33Object.ex = Some example_xyz, Mat33Object.ey = Some example_xyz,
                        Mat33Object.ez = Some example_xyz\<rparr>)"
  by (simp add: Mat33_isValid_def Vec3_isValid_def example_xyz_def)

text \<open>
  With the flag on, \<open>AABB.isValid\<close> on a valid box writes \<open>Invalid Vec2!\<close> for each
  argument of \<open>Vec2.sub\<close>, for the new array that \<open>set\<close> fills, and for the difference
  when it is finite; on anything else it writes nothing.
\<close>

lemma AABB_isValid_console_valid:
  "AABB_isValid (Some b) \<Longrightarrow>
   AABB_isValid_console True (Some b) con =
     con @ [''Invalid Vec2!'', ''Invalid Vec2!'', ''Invalid Vec2!'']
         @ (if Vec2_isValid (Some (Vec2_sub (upperBound b) (lowerBound b)))
            then [''Invalid Vec2!''] else [])"
  by (simp add: AABB_isValid_def AABB_isValid_console_def Vec2_sub_console_def
      Vec2_set_console_def Vec2_lengthSquared_console_def Vec2_assert_def console_assert_def
      Let_def Vec2_create_def Vec2_isValid_def Vec2_prop_def)

lemma AABB_isValid_console_invalid:
  "\<not> AABB_isValid obj \<Longrightarrow> AABB_isValid_console ASSERT obj con = con"
proof (cases obj)
  case None
  then show ?thesis by (simp add: AABB_isValid_console_def)
next
  case (Some b)
  assume "\<not> AABB_isValid obj"
  with Some have "\<not> (Vec2_isValid (Some (lowerBound b)) \<and> Vec2_isValid (Some (upperBound b)))"
    using AABB_isValid_iff_finite [of b] by (auto simp: Vec2_isValid_iff)
  with Some show ?thesis by (auto simp: AABB_isValid_console_def)
qed

lemma AABB_assert_console:
  "AABB_assert True None con = con"
  "AABB_assert True (Some b) con =
     (if AABB_isValid (Some b)
      then con @ [''Invalid Vec2!'', ''Invalid Vec2!'', ''Invalid Vec2!'']
               @ (if Vec2_isValid (Some (Vec2_sub (upperBound b) (lowerBound b)))
                  then [''Invalid Vec2!''] else [])
               @ [''Invalid AABB!'']
      else con)"
proof -
  show "AABB_assert True None con = con"
    by (simp add: AABB_assert_def console_assert_def AABB_isValid_def AABB_isValid_console_def)
  show "AABB_assert True (Some b) con =
     (if AABB_isValid (Some b)
      then con @ [''Invalid Vec2!'', ''Invalid Vec2!'', ''Invalid Vec2!'']
               @ (if Vec2_isValid (Some (Vec2_sub (upperBound b) (lowerBound b)))
                  then [''Invalid Vec2!''] else [])
               @ [''Invalid AABB!'']
      else con)"
    by (simp add: AABB_assert_def console_assert_def AABB_isValid_console_valid
        AABB_isValid_console_invalid)
qed

text \<open>
  C10. With the \<open>ASSERT\<close> flag on, each of \<open>Vec2.assert\<close>, \<open>AABB.assert\<close>,
  \<open>Mat22.assert\<close> and \<open>Mat33.assert\<close> passes the negation of its \<open>isValid\<close> check to
  \<open>console.assert\<close>: its message \<open>Invalid ...\<close> is written exactly when the argument is
  valid, and nothing is written when it is invalid. Before its own message,
  \<open>AABB.assert\<close> on a valid box writes what the asserts inside \<open>AABB.isValid\<close> write,
  which are inverted in the same way: \<open>Invalid Vec2!\<close> three or four times. A \<open>Mat33\<close>
  is never valid and never reported; an object with valid columns is reported.
\<close>

theorem validity_asserts_fire_on_valid_input:
  "Vec2_assert True v con = (if Vec2_isValid v then con @ [''Invalid Vec2!''] else con)
   \<and> AABB_assert True None con = con
   \<and> AABB_assert True (Some b) con =
       (if AABB_isValid (Some b)
        then con @ [''Invalid Vec2!'', ''Invalid Vec2!'', ''Invalid Vec2!'']
                 @ (if Vec2_isValid (Some (Vec2_sub (upperBound b) (lowerBound b)))
                    then [''Invalid Vec2!''] else [])
                 @ [''Invalid AABB!'']
        else con)
   \<and> Mat22_assert True m2 con = (if Mat22_isValid m2 then con @ [''Invalid Mat22!''] else con)
   \<and> Mat33_assert True m3 con = (if Mat33_isValid m3 then con @ [''Invalid Mat33!''] else con)
   \<and> Mat33_assert True (Some (Mat33_object m)) con = con
   \<and> Mat33_assert True
         (Some \<lparr>Mat33Object.ex = Some example_xyz, Mat33Object.ey = Some example_xyz,
                Mat33Object.ez = Some example_xyz\<rparr>) con
       = con @ [''Invalid Mat33!'']"
  by (simp add: Vec2_assert_def Mat22_assert_def Mat33_assert_def console_assert_def
      AABB_assert_console Mat33_isValid_Mat33 Mat33_isValid_example)

end
